theory Spec2Isabelle
  imports Complex_Main "HOL-Library.Sublist"
begin

section \<open>The runtime the profile generator queries\<close>

text \<open>
  \<^verbatim>\<open>browser-device-profile.js\<close> reads ambient platform state only: whether the global
  \<^verbatim>\<open>tizen\<close> is defined, \<^verbatim>\<open>navigator.userAgent\<close>, the \<^verbatim>\<open>canPlayType\<close> method of a
  video and of an audio element, whether \<^verbatim>\<open>window.MediaSource\<close> is non-null, and the
  global \<^verbatim>\<open>webapis\<close> with its \<^verbatim>\<open>productinfo.isUdPanelSupported()\<close> call. The record
  \<open>Runtime\<close> holds exactly these. A missing \<^verbatim>\<open>canPlayType\<close> method is \<open>None\<close>; a
  panel query that throws is the value \<open>Throws\<close>.

  The video test element is created once and memoised by the source; only its
  \<^verbatim>\<open>canPlayType\<close> is ever used, so the memo of the element itself is not part of the
  state. The memo \<^verbatim>\<open>_canPlayHls\<close> is: it is threaded through \<open>canPlayHls\<close> and
  \<open>getDeviceProfile\<close> as a \<open>bool option\<close>.
\<close>

datatype exn = Exception

datatype panel_query = Throws | Returns bool

datatype webapis_global = WebapisUndefined | Webapis "panel_query option"

record Runtime =
  tizen_defined :: bool
  userAgent :: string
  video_canPlayType :: "(string \<Rightarrow> string) option"
  audio_canPlayType :: "(string \<Rightarrow> string) option"
  MediaSource_present :: bool
  webapis :: webapis_global

section \<open>JavaScript string and array primitives used by the source\<close>

text \<open>\<^verbatim>\<open>s.replace(/no/, "")\<close>: the first occurrence of \<^verbatim>\<open>no\<close> is removed.\<close>

fun replace_no :: "string \<Rightarrow> string" where
  "replace_no (a # b # s) =
     (if a = CHR ''n'' \<and> b = CHR ''o'' then s else a # replace_no (b # s))"
| "replace_no s = s"

text \<open>
  The idiom \<^verbatim>\<open>!!(el.canPlayType && el.canPlayType(q).replace(/no/, ""))\<close>: false when
  the method is missing, otherwise the truthiness (non-emptiness) of the answer with
  its first \<^verbatim>\<open>no\<close> removed.
\<close>

definition canPlayTypeNotNo :: "(string \<Rightarrow> string) option \<Rightarrow> string \<Rightarrow> bool" where
  "canPlayTypeNotNo cpt q = (case cpt of None \<Rightarrow> False | Some f \<Rightarrow> replace_no (f q) \<noteq> [])"

text \<open>\<^verbatim>\<open>String.prototype.toLowerCase\<close> on 8-bit characters.\<close>

definition toLowerCase_char :: "char \<Rightarrow> char" where
  "toLowerCase_char c =
     (let n = (of_char c :: nat) in
      if (65 \<le> n \<and> n \<le> 90) \<or> (192 \<le> n \<and> n \<le> 222 \<and> n \<noteq> 215) then char_of (n + 32) else c)"

definition toLowerCase :: "string \<Rightarrow> string" where
  "toLowerCase s = map toLowerCase_char s"

text \<open>\<^verbatim>\<open>s.indexOf(t)\<close>: the first position where \<open>t\<close> occurs in \<open>s\<close>, or \<open>-1\<close>.\<close>

fun indexOf_from :: "nat \<Rightarrow> string \<Rightarrow> string \<Rightarrow> int" where
  "indexOf_from i [] t = (if t = [] then int i else - 1)"
| "indexOf_from i (c # s) t = (if prefix t (c # s) then int i else indexOf_from (Suc i) s t)"

definition indexOf :: "string \<Rightarrow> string \<Rightarrow> int" where
  "indexOf s t = indexOf_from 0 s t"

text \<open>
  The regular expression \<^verbatim>\<open>/Tizen\s+(\d+)\.(\d+)/i\<close>. \<open>match_here\<close> matches it at the
  start of a string and returns the two digit groups; both \<^verbatim>\<open>\s+\<close> and \<^verbatim>\<open>\d+\<close> are
  greedy, and giving characters back never helps, because what follows each of them
  must be a character outside its class. \<open>regex_match\<close> is \<^verbatim>\<open>s.match(re)\<close>: the
  leftmost position where the expression matches.
\<close>

definition is_digit :: "char \<Rightarrow> bool" where
  "is_digit c = (let n = (of_char c :: nat) in 48 \<le> n \<and> n \<le> 57)"

definition is_space :: "char \<Rightarrow> bool" where
  "is_space c = (let n = (of_char c :: nat) in (9 \<le> n \<and> n \<le> 13) \<or> n = 32 \<or> n = 160)"

definition ascii_lower :: "char \<Rightarrow> char" where
  "ascii_lower c = (let n = (of_char c :: nat) in if 65 \<le> n \<and> n \<le> 90 then char_of (n + 32) else c)"

definition match_here :: "string \<Rightarrow> (string \<times> string) option" where
  "match_here s =
     (if map ascii_lower (take 5 s) = ''tizen'' then
        (let r1 = drop 5 s;
             ws = takeWhile is_space r1;
             r2 = dropWhile is_space r1;
             d1 = takeWhile is_digit r2;
             r3 = dropWhile is_digit r2
         in if ws \<noteq> [] \<and> d1 \<noteq> [] then
              (case r3 of
                 [] \<Rightarrow> None
               | c # r4 \<Rightarrow>
                   (if c = CHR ''.'' \<and> takeWhile is_digit r4 \<noteq> []
                    then Some (d1, takeWhile is_digit r4) else None))
            else None)
      else None)"

fun regex_match :: "string \<Rightarrow> (string \<times> string) option" where
  "regex_match [] = match_here []"
| "regex_match (c # s) =
     (case match_here (c # s) of Some m \<Rightarrow> Some m | None \<Rightarrow> regex_match s)"

text \<open>\<^verbatim>\<open>parseInt(d, 10)\<close> on a non-empty string of decimal digits.\<close>

definition parseInt :: "string \<Rightarrow> nat" where
  "parseInt d = foldl (\<lambda>acc c. 10 * acc + (of_char c - 48)) 0 d"

text \<open>\<^verbatim>\<open>Number.prototype.toString\<close> on a non-negative integer.\<close>

function toString :: "nat \<Rightarrow> string" where
  "toString n =
     (if n < 10 then [char_of (48 + n)] else toString (n div 10) @ [char_of (48 + n mod 10)])"
  by pat_completeness auto
termination
  by (relation "measure id") auto

declare toString.simps [simp del]

text \<open>\<^verbatim>\<open>Array.prototype.join(sep)\<close>.\<close>

fun join :: "string \<Rightarrow> string list \<Rightarrow> string" where
  "join sep [] = []"
| "join sep [x] = x"
| "join sep (x # y # ys) = x @ sep @ join sep (y # ys)"

text \<open>
  The document carries its codec lists and range-type sets as delimited strings.
  \<open>split\<close> is \<^verbatim>\<open>String.prototype.split\<close> with a one-character separator: the way a
  consumer reads such a string back as a list.
\<close>

fun split :: "char \<Rightarrow> string \<Rightarrow> string list" where
  "split sep [] = [[]]"
| "split sep (c # s) =
     (if c = sep then [] # split sep s
      else (case split sep s of [] \<Rightarrow> [[c]] | w # ws \<Rightarrow> (c # w) # ws))"

section \<open>Platform capability probes\<close>

definition isTizen :: "Runtime \<Rightarrow> bool" where
  "isTizen rt = (tizen_defined rt \<or> indexOf (toLowerCase (userAgent rt)) ''tizen'' \<noteq> - 1)"

text \<open>
  \<^verbatim>\<open>getTizenVersion\<close> computes \<^verbatim>\<open>parseInt(m[1]) + parseInt(m[2]) / 10\<close> and the source
  only ever compares the result with 3, 4, 5, 5.5 and 6.5. These are multiples of one
  half and the exact sum is a multiple of one tenth, so rounding to a double never
  moves the sum across one of them: the comparisons on the exact rational are the
  comparisons the source makes.
\<close>

definition getTizenVersion :: "Runtime \<Rightarrow> rat" where
  "getTizenVersion rt =
     (if \<not> isTizen rt then 0
      else (case regex_match (userAgent rt) of
              Some (major, minor) \<Rightarrow> of_nat (parseInt major) + of_nat (parseInt minor) / 10
            | None \<Rightarrow> 4))"

definition canPlayH264 :: "Runtime \<Rightarrow> bool" where
  \<open>canPlayH264 rt =
     canPlayTypeNotNo (video_canPlayType rt) ''video/mp4; codecs="avc1.42E01E, mp4a.40.2"''\<close>

definition canPlayHevc :: "Runtime \<Rightarrow> bool" where
  \<open>canPlayHevc rt =
     (if isTizen rt then True
      else (canPlayTypeNotNo (video_canPlayType rt) ''video/mp4; codecs="hvc1.1.L120"'' \<or>
            canPlayTypeNotNo (video_canPlayType rt) ''video/mp4; codecs="hev1.1.L120"'' \<or>
            canPlayTypeNotNo (video_canPlayType rt) ''video/mp4; codecs="hvc1.1.0.L120"'' \<or>
            canPlayTypeNotNo (video_canPlayType rt) ''video/mp4; codecs="hev1.1.0.L120"''))\<close>

definition canPlayAv1 :: "Runtime \<Rightarrow> bool" where
  \<open>canPlayAv1 rt =
     (let tizenVersion = getTizenVersion rt in
      if tizenVersion \<ge> 55 / 10 then True
      else (canPlayTypeNotNo (video_canPlayType rt) ''video/mp4; codecs="av01.0.15M.08"'' \<and>
            canPlayTypeNotNo (video_canPlayType rt) ''video/mp4; codecs="av01.0.15M.10"''))\<close>

definition supportsAc3 :: "Runtime \<Rightarrow> bool" where
  \<open>supportsAc3 rt =
     (if isTizen rt then True
      else canPlayTypeNotNo (video_canPlayType rt) ''audio/mp4; codecs="ac-3"'')\<close>

definition supportsEac3 :: "Runtime \<Rightarrow> bool" where
  \<open>supportsEac3 rt =
     (if isTizen rt then True
      else canPlayTypeNotNo (video_canPlayType rt) ''audio/mp4; codecs="ec-3"'')\<close>

definition canPlayDts :: "Runtime \<Rightarrow> bool" where
  \<open>canPlayDts rt =
     (let tizenVersion = getTizenVersion rt in
      if tizenVersion \<ge> 4 then False
      else (canPlayTypeNotNo (video_canPlayType rt) ''video/mp4; codecs="dts-"'' \<or>
            canPlayTypeNotNo (video_canPlayType rt) ''video/mp4; codecs="dts+"''))\<close>

definition canPlayNativeHls :: "Runtime \<Rightarrow> bool" where
  "canPlayNativeHls rt =
     (if isTizen rt then True
      else (canPlayTypeNotNo (video_canPlayType rt) ''application/x-mpegURL'' \<or>
            canPlayTypeNotNo (video_canPlayType rt) ''application/vnd.apple.mpegURL''))"

definition canPlayHlsWithMSE :: "Runtime \<Rightarrow> bool" where
  "canPlayHlsWithMSE rt = MediaSource_present rt"

text \<open>
  \<^verbatim>\<open>canPlayHls\<close> reads and writes the memo \<^verbatim>\<open>_canPlayHls\<close>: the result and the memo
  after the call.
\<close>

definition canPlayHls :: "Runtime \<Rightarrow> bool option \<Rightarrow> bool \<times> bool option" where
  "canPlayHls rt memo =
     (case memo of
        None \<Rightarrow> (let v = (canPlayNativeHls rt \<or> canPlayHlsWithMSE rt) in (v, Some v))
      | Some v \<Rightarrow> (v, Some v))"

definition canPlayNativeHlsInFmp4 :: "Runtime \<Rightarrow> bool" where
  "canPlayNativeHlsInFmp4 rt = (let tizenVersion = getTizenVersion rt in tizenVersion \<ge> 5)"

definition supportsHdr10 :: "Runtime \<Rightarrow> bool" where
  "supportsHdr10 rt = isTizen rt"

definition supportsHlg :: "Runtime \<Rightarrow> bool" where
  "supportsHlg rt = supportsHdr10 rt"

definition supportsDolbyVision :: "Runtime \<Rightarrow> bool" where
  "supportsDolbyVision rt = False"

definition canPlayMkv :: "Runtime \<Rightarrow> bool" where
  "canPlayMkv rt =
     (if isTizen rt then True
      else (canPlayTypeNotNo (video_canPlayType rt) ''video/x-matroska'' \<or>
            canPlayTypeNotNo (video_canPlayType rt) ''video/mkv''))"

definition canPlayTs :: "Runtime \<Rightarrow> bool" where
  "canPlayTs rt = isTizen rt"

definition audioTypeString :: "string \<Rightarrow> string option" where
  \<open>audioTypeString format =
     (if format = ''opus'' then Some ''audio/ogg; codecs="opus"''
      else if format = ''webma'' then Some ''audio/webm''
      else if format = ''mp3'' then Some ''audio/mpeg''
      else if format = ''aac'' then Some ''audio/mp4; codecs="mp4a.40.2"''
      else if format = ''flac'' then Some ''audio/flac''
      else if format = ''wav'' then Some ''audio/wav''
      else if format = ''ogg'' then Some ''audio/ogg''
      else None)\<close>

definition canPlayAudioFormat :: "Runtime \<Rightarrow> string \<Rightarrow> bool" where
  "canPlayAudioFormat rt format =
     (if isTizen rt \<and> (format = ''flac'' \<or> format = ''asf'' \<or> format = ''wma'') then True
      else (case audioTypeString format of
              Some typeString \<Rightarrow> canPlayTypeNotNo (audio_canPlayType rt) typeString
            | None \<Rightarrow> False))"

definition getMaxH264Level :: "Runtime \<Rightarrow> nat" where
  \<open>getMaxH264Level rt =
     (let tizenVersion = getTizenVersion rt in
      if tizenVersion \<ge> 5 then 52
      else if isTizen rt then 51
      else if canPlayTypeNotNo (video_canPlayType rt) ''video/mp4; codecs="avc1.640833"'' then 51
      else 42)\<close>

definition getMaxHevcLevel :: "Runtime \<Rightarrow> nat" where
  \<open>getMaxHevcLevel rt =
     (if canPlayTypeNotNo (video_canPlayType rt) ''video/mp4; codecs="hvc1.2.4.L186"'' then 186
      else if canPlayTypeNotNo (video_canPlayType rt) ''video/mp4; codecs="hvc1.2.4.L183"'' then 183
      else if canPlayTypeNotNo (video_canPlayType rt) ''video/mp4; codecs="hvc1.2.4.L153"'' then 153
      else if isTizen rt then 153
      else 120)\<close>

definition getHevcProfiles :: "Runtime \<Rightarrow> string" where
  \<open>getHevcProfiles rt =
     (if canPlayTypeNotNo (video_canPlayType rt) ''video/mp4; codecs="hvc1.2.4.L123"'' \<or>
         canPlayTypeNotNo (video_canPlayType rt) ''video/mp4; codecs="hev1.2.4.L123"''
      then ''main|main 10''
      else if isTizen rt then ''main|main 10''
      else ''main'')\<close>

definition getPhysicalAudioChannels :: "Runtime \<Rightarrow> nat" where
  "getPhysicalAudioChannels rt = (if isTizen rt then 6 else 2)"

text \<open>
  \<^verbatim>\<open>getGlobalMaxVideoBitrate\<close> guards the panel query with \<^verbatim>\<open>try\<close>/\<^verbatim>\<open>catch\<close>.
  \<open>isUdPanelSupported\<close> is the call, which throws or returns; \<open>panel_try\<close> is the body
  of the \<^verbatim>\<open>try\<close>: \<open>Inl\<close> when it throws, \<open>Inr (Some n)\<close> when it executes
  \<^verbatim>\<open>return n\<close>, \<open>Inr None\<close> when it falls through. The \<^verbatim>\<open>catch\<close> clause only logs,
  and control then reaches the final \<^verbatim>\<open>return null\<close>, which is \<open>None\<close>.
\<close>

definition isUdPanelSupported :: "panel_query \<Rightarrow> exn + bool" where
  "isUdPanelSupported q = (case q of Throws \<Rightarrow> Inl Exception | Returns b \<Rightarrow> Inr b)"

definition panel_try :: "Runtime \<Rightarrow> exn + nat option" where
  "panel_try rt =
     (case webapis rt of
        WebapisUndefined \<Rightarrow> Inr None
      | Webapis None \<Rightarrow> Inr None
      | Webapis (Some productinfo) \<Rightarrow>
          (case isUdPanelSupported productinfo of
             Inl e \<Rightarrow> Inl e
           | Inr isUhd \<Rightarrow> if \<not> isUhd then Inr (Some 20000000) else Inr None))"

definition getGlobalMaxVideoBitrate :: "Runtime \<Rightarrow> nat option" where
  "getGlobalMaxVideoBitrate rt =
     (if isTizen rt then
        (case panel_try rt of
           Inl e \<Rightarrow> None
         | Inr (Some n) \<Rightarrow> Some n
         | Inr None \<Rightarrow> None)
      else None)"

section \<open>The negotiation document\<close>

text \<open>
  One record per kind of object literal the source pushes. A key that some literals
  of a kind carry and others omit is an \<open>option\<close> field.
\<close>

record DirectPlayProfile =
  Container :: string
  Type :: string
  VideoCodec :: "string option"
  AudioCodec :: "string option"

record TranscodingProfile =
  Container :: string
  Type :: string
  AudioCodec :: string
  VideoCodec :: "string option"
  Context :: string
  Protocol :: string
  MaxAudioChannels :: string
  MinSegments :: "string option"
  BreakOnNonKeyFrames :: "bool option"

record ProfileCondition =
  Condition :: string
  Property :: string
  Value :: string
  IsRequired :: "bool option"

record ContainerProfile =
  Type :: string
  Conditions :: "ProfileCondition list"

record CodecProfile =
  Type :: string
  Codec :: "string option"
  Conditions :: "ProfileCondition list"

record SubtitleProfile =
  Format :: string
  Method :: string

record ResponseProfile =
  Type :: string
  Container :: string
  MimeType :: string

record DeviceProfile =
  MaxStreamingBitrate :: nat
  MaxStaticBitrate :: nat
  MusicStreamingTranscodingBitrate :: nat
  DirectPlayProfiles :: "DirectPlayProfile list"
  TranscodingProfiles :: "TranscodingProfile list"
  ContainerProfiles :: "ContainerProfile list"
  CodecProfiles :: "CodecProfile list"
  SubtitleProfiles :: "SubtitleProfile list"
  ResponseProfiles :: "ResponseProfile list"

section \<open>Building the device profile\<close>

text \<open>
  The local variables of \<^verbatim>\<open>getDeviceProfile\<close>, in source order. A sequence of
  conditional \<^verbatim>\<open>push\<close> calls on an array is the concatenation of the conditional
  pieces.
\<close>

definition videoAudioCodecs :: "Runtime \<Rightarrow> string list" where
  "videoAudioCodecs rt =
     [''aac'', ''mp3'']
     @ (if supportsAc3 rt then [''ac3''] else [])
     @ (if supportsEac3 rt then [''eac3''] else [])
     @ (if canPlayDts rt then [''dca'', ''dts''] else [])
     @ (if isTizen rt then [''pcm_s16le'', ''pcm_s24le'', ''aac_latm''] else [])
     @ (if canPlayAudioFormat rt ''opus'' then [''opus''] else [])
     @ (if canPlayAudioFormat rt ''flac'' \<and> \<not> isTizen rt then [''flac''] else [])"

definition mp4VideoCodecs :: "Runtime \<Rightarrow> string list" where
  "mp4VideoCodecs rt =
     (if canPlayH264 rt then [''h264''] else [])
     @ (if canPlayHevc rt then [''hevc''] else [])
     @ (if canPlayAv1 rt then [''av1''] else [])"

definition mkvVideoCodecs :: "Runtime \<Rightarrow> string list" where
  "mkvVideoCodecs rt =
     (if canPlayH264 rt then [''h264''] else [])
     @ (if canPlayHevc rt then [''hevc''] else [])
     @ (if canPlayAv1 rt then [''av1''] else [])"

definition hlsVideoCodecs :: "Runtime \<Rightarrow> string list" where
  "hlsVideoCodecs rt =
     (if canPlayH264 rt then [''h264''] else [])
     @ (if canPlayHevc rt then (if isTizen rt then [''hevc''] else []) else [])"

definition hlsAudioCodecs :: "Runtime \<Rightarrow> string list" where
  "hlsAudioCodecs rt =
     [''aac'', ''mp3'']
     @ (if supportsAc3 rt then [''ac3''] else [])
     @ (if supportsEac3 rt then [''eac3''] else [])"

definition tsVideoCodecs :: "Runtime \<Rightarrow> string list" where
  "tsVideoCodecs rt = [''h264''] @ (if canPlayHevc rt then [''hevc''] else [])"

text \<open>
  The direct-play section. \<open>hls\<close> is what the call \<^verbatim>\<open>canPlayHls()\<close> of this section
  returned. The \<^verbatim>\<open>forEach\<close> over the fixed format list is a \<open>concat\<close> of a \<open>map\<close>.
\<close>

definition audioDirectPlay :: "Runtime \<Rightarrow> string \<Rightarrow> DirectPlayProfile list" where
  "audioDirectPlay rt format =
     (if canPlayAudioFormat rt format
      then [\<lparr>DirectPlayProfile.Container = format, DirectPlayProfile.Type = ''Audio'',
             DirectPlayProfile.VideoCodec = None, DirectPlayProfile.AudioCodec = None\<rparr>]
      else [])"

definition directPlayProfiles :: "Runtime \<Rightarrow> bool \<Rightarrow> DirectPlayProfile list" where
  "directPlayProfiles rt hls =
     (if mp4VideoCodecs rt \<noteq> [] then
        [\<lparr>DirectPlayProfile.Container = ''mp4,m4v'', DirectPlayProfile.Type = ''Video'',
          DirectPlayProfile.VideoCodec = Some (join '','' (mp4VideoCodecs rt)),
          DirectPlayProfile.AudioCodec = Some (join '','' (videoAudioCodecs rt))\<rparr>]
      else [])
     @ (if canPlayMkv rt \<and> mkvVideoCodecs rt \<noteq> [] then
        [\<lparr>DirectPlayProfile.Container = ''mkv'', DirectPlayProfile.Type = ''Video'',
          DirectPlayProfile.VideoCodec = Some (join '','' (mkvVideoCodecs rt)),
          DirectPlayProfile.AudioCodec = Some (join '','' (videoAudioCodecs rt))\<rparr>]
      else [])
     @ (if canPlayTs rt then
        [\<lparr>DirectPlayProfile.Container = ''ts,mpegts'', DirectPlayProfile.Type = ''Video'',
          DirectPlayProfile.VideoCodec = Some (join '','' (tsVideoCodecs rt)),
          DirectPlayProfile.AudioCodec = Some (join '','' (videoAudioCodecs rt))\<rparr>]
      else [])
     @ (if hls \<and> hlsVideoCodecs rt \<noteq> [] then
        [\<lparr>DirectPlayProfile.Container = ''hls'', DirectPlayProfile.Type = ''Video'',
          DirectPlayProfile.VideoCodec = Some (join '','' (hlsVideoCodecs rt)),
          DirectPlayProfile.AudioCodec = Some (join '','' (hlsAudioCodecs rt))\<rparr>]
      else [])
     @ concat (map (audioDirectPlay rt) [''mp3'', ''aac'', ''flac'', ''wav'', ''ogg'', ''opus''])"

definition audioTranscoding :: "Runtime \<Rightarrow> string \<Rightarrow> TranscodingProfile list" where
  "audioTranscoding rt format =
     (if canPlayAudioFormat rt format
      then [\<lparr>TranscodingProfile.Container = format, TranscodingProfile.Type = ''Audio'',
             TranscodingProfile.AudioCodec = format, TranscodingProfile.VideoCodec = None,
             Context = ''Streaming'', Protocol = ''http'',
             MaxAudioChannels = toString (getPhysicalAudioChannels rt),
             MinSegments = None, BreakOnNonKeyFrames = None\<rparr>]
      else [])"

definition transcodingProfiles :: "Runtime \<Rightarrow> bool \<Rightarrow> TranscodingProfile list" where
  "transcodingProfiles rt hls =
     (if hls \<and> hlsVideoCodecs rt \<noteq> [] then
        (let hlsContainer = (if canPlayNativeHlsInFmp4 rt then ''mp4'' else ''ts'') in
         [\<lparr>TranscodingProfile.Container = hlsContainer, TranscodingProfile.Type = ''Video'',
           TranscodingProfile.AudioCodec = join '','' (hlsAudioCodecs rt),
           TranscodingProfile.VideoCodec = Some (join '','' (hlsVideoCodecs rt)),
           Context = ''Streaming'', Protocol = ''hls'',
           MaxAudioChannels = toString (getPhysicalAudioChannels rt),
           MinSegments = Some ''1'', BreakOnNonKeyFrames = Some False\<rparr>])
      else [])
     @ concat (map (audioTranscoding rt) [''aac'', ''mp3'', ''opus'', ''wav''])"

definition containerProfiles :: "Runtime \<Rightarrow> ContainerProfile list" where
  "containerProfiles rt =
     (if getTizenVersion rt < 65 / 10 then
        [\<lparr>ContainerProfile.Type = ''Video'',
          ContainerProfile.Conditions =
            [\<lparr>Condition = ''LessThanEqual'', Property = ''NumStreams'', Value = ''32'',
              IsRequired = Some False\<rparr>]\<rparr>]
      else [])"

text \<open>
  \<^verbatim>\<open>if (globalMaxVideoBitrate)\<close> tests the truthiness of a number or \<^verbatim>\<open>null\<close>:
  \<^verbatim>\<open>null\<close> and \<open>0\<close> are false. \<open>bitrateCondition\<close> is the condition each of the three
  codec-specific rules pushes under that test, \<open>globalVideoConditions\<close> the rule
  without a codec pushed under the same test.
\<close>

definition bitrateCondition :: "nat option \<Rightarrow> ProfileCondition list" where
  "bitrateCondition globalMaxVideoBitrate =
     (case globalMaxVideoBitrate of
        None \<Rightarrow> []
      | Some n \<Rightarrow>
          if n \<noteq> 0 then
            [\<lparr>Condition = ''LessThanEqual'', Property = ''VideoBitrate'',
              Value = toString n, IsRequired = Some True\<rparr>]
          else [])"

definition globalVideoConditions :: "nat option \<Rightarrow> CodecProfile list" where
  "globalVideoConditions globalMaxVideoBitrate =
     (case globalMaxVideoBitrate of
        None \<Rightarrow> []
      | Some n \<Rightarrow>
          if n \<noteq> 0 then
            [\<lparr>CodecProfile.Type = ''Video'', Codec = None,
              CodecProfile.Conditions =
                [\<lparr>Condition = ''LessThanEqual'', Property = ''VideoBitrate'',
                  Value = toString n, IsRequired = None\<rparr>]\<rparr>]
          else [])"

definition h264Conditions :: "Runtime \<Rightarrow> ProfileCondition list" where
  "h264Conditions rt =
     [\<lparr>Condition = ''EqualsAny'', Property = ''VideoProfile'',
       Value = ''high|main|baseline|constrained baseline'', IsRequired = Some False\<rparr>,
      \<lparr>Condition = ''EqualsAny'', Property = ''VideoRangeType'',
       Value = ''SDR'', IsRequired = Some False\<rparr>,
      \<lparr>Condition = ''LessThanEqual'', Property = ''VideoLevel'',
       Value = toString (getMaxH264Level rt), IsRequired = Some False\<rparr>]
     @ bitrateCondition (getGlobalMaxVideoBitrate rt)"

definition hevcVideoRangeTypes :: "Runtime \<Rightarrow> string" where
  "hevcVideoRangeTypes rt =
     ''SDR''
     @ (if supportsHdr10 rt then ''|HDR10|HDR10Plus'' else [])
     @ (if supportsHlg rt then ''|HLG'' else [])
     @ (if getTizenVersion rt \<ge> 3
        then ''|DOVIWithHDR10|DOVIWithHDR10Plus|DOVIWithSDR|DOVIWithHLG''
             @ ''|DOVIWithEL|DOVIWithELHDR10Plus|DOVIInvalid''
        else [])"

definition hevcConditions :: "Runtime \<Rightarrow> ProfileCondition list" where
  "hevcConditions rt =
     [\<lparr>Condition = ''EqualsAny'', Property = ''VideoProfile'',
       Value = getHevcProfiles rt, IsRequired = Some False\<rparr>,
      \<lparr>Condition = ''EqualsAny'', Property = ''VideoRangeType'',
       Value = hevcVideoRangeTypes rt, IsRequired = Some False\<rparr>,
      \<lparr>Condition = ''LessThanEqual'', Property = ''VideoLevel'',
       Value = toString (getMaxHevcLevel rt), IsRequired = Some False\<rparr>]
     @ bitrateCondition (getGlobalMaxVideoBitrate rt)"

definition av1VideoRangeTypes :: "Runtime \<Rightarrow> string" where
  "av1VideoRangeTypes rt =
     ''SDR''
     @ (if supportsHdr10 rt then ''|HDR10|HDR10Plus'' else [])
     @ (if supportsHlg rt then ''|HLG'' else [])
     @ (if getTizenVersion rt \<ge> 3
        then ''|DOVIWithHDR10|DOVIWithHDR10Plus|DOVIWithEL|DOVIWithELHDR10Plus|DOVIInvalid''
        else [])"

definition av1Conditions :: "Runtime \<Rightarrow> ProfileCondition list" where
  "av1Conditions rt =
     [\<lparr>Condition = ''EqualsAny'', Property = ''VideoProfile'',
       Value = ''main'', IsRequired = Some False\<rparr>,
      \<lparr>Condition = ''EqualsAny'', Property = ''VideoRangeType'',
       Value = av1VideoRangeTypes rt, IsRequired = Some False\<rparr>,
      \<lparr>Condition = ''LessThanEqual'', Property = ''VideoLevel'',
       Value = ''15'', IsRequired = Some False\<rparr>]
     @ bitrateCondition (getGlobalMaxVideoBitrate rt)"

definition codecProfiles :: "Runtime \<Rightarrow> CodecProfile list" where
  "codecProfiles rt =
     [\<lparr>CodecProfile.Type = ''Video'', Codec = Some ''h264'',
       CodecProfile.Conditions = h264Conditions rt\<rparr>,
      \<lparr>CodecProfile.Type = ''Video'', Codec = Some ''hevc'',
       CodecProfile.Conditions = hevcConditions rt\<rparr>]
     @ (if canPlayAv1 rt then
          [\<lparr>CodecProfile.Type = ''Video'', Codec = Some ''av1'',
            CodecProfile.Conditions = av1Conditions rt\<rparr>]
        else [])
     @ globalVideoConditions (getGlobalMaxVideoBitrate rt)
     @ [\<lparr>CodecProfile.Type = ''VideoAudio'', Codec = None,
         CodecProfile.Conditions =
           [\<lparr>Condition = ''LessThanEqual'', Property = ''AudioChannels'',
             Value = toString (getPhysicalAudioChannels rt), IsRequired = Some False\<rparr>]\<rparr>]"

definition subtitleProfiles :: "SubtitleProfile list" where
  "subtitleProfiles =
     [\<lparr>Format = ''vtt'', Method = ''External''\<rparr>,
      \<lparr>Format = ''srt'', Method = ''External''\<rparr>,
      \<lparr>Format = ''ass'', Method = ''External''\<rparr>,
      \<lparr>Format = ''ssa'', Method = ''External''\<rparr>,
      \<lparr>Format = ''pgssub'', Method = ''Encode''\<rparr>,
      \<lparr>Format = ''dvdsub'', Method = ''Encode''\<rparr>,
      \<lparr>Format = ''dvbsub'', Method = ''Encode''\<rparr>,
      \<lparr>Format = ''sub'', Method = ''Encode''\<rparr>]"

definition responseProfiles :: "ResponseProfile list" where
  "responseProfiles =
     [\<lparr>ResponseProfile.Type = ''Video'', ResponseProfile.Container = ''m4v'',
       MimeType = ''video/mp4''\<rparr>]"

text \<open>
  \<^verbatim>\<open>getDeviceProfile(options)\<close>. The argument \<^verbatim>\<open>options\<close> is never read. The function
  takes the memo \<^verbatim>\<open>_canPlayHls\<close> and returns the profile with the memo after the
  call; \<^verbatim>\<open>canPlayHls()\<close> is called twice, once for the direct-play rule and once for
  the transcoding rule, each time before \<^verbatim>\<open>hlsVideoCodecs.length\<close> is looked at.
\<close>

definition getDeviceProfile :: "Runtime \<Rightarrow> bool option \<Rightarrow> DeviceProfile \<times> bool option" where
  "getDeviceProfile rt memo =
     (let (hls1, memo1) = canPlayHls rt memo;
          directPlay = directPlayProfiles rt hls1;
          (hls2, memo2) = canPlayHls rt memo1;
          transcoding = transcodingProfiles rt hls2
      in (\<lparr>MaxStreamingBitrate = 120000000,
           MaxStaticBitrate = 100000000,
           MusicStreamingTranscodingBitrate = 384000,
           DirectPlayProfiles = directPlay,
           TranscodingProfiles = transcoding,
           ContainerProfiles = containerProfiles rt,
           CodecProfiles = codecProfiles rt,
           SubtitleProfiles = subtitleProfiles,
           ResponseProfiles = responseProfiles\<rparr>, memo2))"

section \<open>Example runtimes\<close>

text \<open>
  A desktop browser whose media element answers \<^verbatim>\<open>probably\<close> to the H.264 query and
  the empty string to every other query, without \<^verbatim>\<open>MediaSource\<close> and without the
  \<^verbatim>\<open>tizen\<close> and \<^verbatim>\<open>webapis\<close> globals.
\<close>

definition h264_only_browser :: Runtime where
  \<open>h264_only_browser =
     \<lparr>tizen_defined = False,
      userAgent = ''Mozilla/5.0'',
      video_canPlayType =
        Some (\<lambda>q. if q = ''video/mp4; codecs="avc1.42E01E, mp4a.40.2"'' then ''probably'' else []),
      audio_canPlayType = Some (\<lambda>q. []),
      MediaSource_present = False,
      webapis = WebapisUndefined\<rparr>\<close>

text \<open>
  Two television runtimes that report Tizen 5.5: one whose panel query answers
  "not UHD", one whose panel query throws. The second one's audio elements answer
  \<^verbatim>\<open>maybe\<close> to \<^verbatim>\<open>audio/mpeg\<close>.
\<close>

definition tv_5_5_fhd :: Runtime where
  \<open>tv_5_5_fhd =
     \<lparr>tizen_defined = True,
      userAgent = ''Tizen 5.5'',
      video_canPlayType =
        Some (\<lambda>q. if q = ''video/mp4; codecs="avc1.42E01E, mp4a.40.2"'' then ''probably'' else []),
      audio_canPlayType = Some (\<lambda>q. []),
      MediaSource_present = True,
      webapis = Webapis (Some (Returns False))\<rparr>\<close>

definition tv_5_5_panel_throws :: Runtime where
  \<open>tv_5_5_panel_throws =
     \<lparr>tizen_defined = True,
      userAgent = ''Tizen 5.5'',
      video_canPlayType =
        Some (\<lambda>q. if q = ''video/mp4; codecs="avc1.42E01E, mp4a.40.2"'' then ''probably'' else []),
      audio_canPlayType = Some (\<lambda>q. if q = ''audio/mpeg'' then ''maybe'' else []),
      MediaSource_present = True,
      webapis = Webapis (Some Throws)\<rparr>\<close>

text \<open>A browser whose media elements have no \<^verbatim>\<open>canPlayType\<close> method at all.\<close>

definition no_codec_browser :: Runtime where
  "no_codec_browser =
     \<lparr>tizen_defined = False,
      userAgent = ''Mozilla/5.0'',
      video_canPlayType = None,
      audio_canPlayType = None,
      MediaSource_present = False,
      webapis = WebapisUndefined\<rparr>"

text \<open>The query string \<open>canPlayH264\<close> passes to \<^verbatim>\<open>canPlayType\<close>.\<close>

definition h264_baseline_query :: string where
  \<open>h264_baseline_query = ''video/mp4; codecs="avc1.42E01E, mp4a.40.2"''\<close>

text \<open>The query string \<open>getMaxH264Level\<close> passes to \<^verbatim>\<open>canPlayType\<close> for level 5.1.\<close>

definition h264_level51_query :: string where
  \<open>h264_level51_query = ''video/mp4; codecs="avc1.640833"''\<close>

text \<open>
  \<open>browser_answering vq aq\<close> is a desktop browser whose video element answers
  \<^verbatim>\<open>probably\<close> to the queries in \<open>vq\<close> and whose audio elements answer \<^verbatim>\<open>probably\<close> to
  the queries in \<open>aq\<close>; every other answer is the empty string. The two browsers
  below differ in one answer only, the one \<open>supportsAc3\<close> asks for.
\<close>

definition browser_answering :: "string list \<Rightarrow> string list \<Rightarrow> Runtime" where
  "browser_answering videoQueries audioQueries =
     \<lparr>tizen_defined = False,
      userAgent = ''Mozilla/5.0'',
      video_canPlayType = Some (\<lambda>q. if q \<in> set videoQueries then ''probably'' else []),
      audio_canPlayType = Some (\<lambda>q. if q \<in> set audioQueries then ''probably'' else []),
      MediaSource_present = False,
      webapis = WebapisUndefined\<rparr>"

definition opus_browser :: Runtime where
  \<open>opus_browser =
     browser_answering [''video/mp4; codecs="avc1.42E01E, mp4a.40.2"'']
                       [''audio/ogg; codecs="opus"'']\<close>

definition opus_ac3_browser :: Runtime where
  \<open>opus_ac3_browser =
     browser_answering [''video/mp4; codecs="avc1.42E01E, mp4a.40.2"'', ''audio/mp4; codecs="ac-3"'']
                       [''audio/ogg; codecs="opus"'']\<close>

text \<open>
  \<open>h264_high_browser\<close> answers the two H.264 queries and nothing else. \<open>mse_browser\<close>
  answers the H.264 baseline query only and has \<^verbatim>\<open>window.MediaSource\<close>.
\<close>

definition h264_high_browser :: Runtime where
  \<open>h264_high_browser =
     browser_answering [''video/mp4; codecs="avc1.42E01E, mp4a.40.2"'',
                        ''video/mp4; codecs="avc1.640833"''] []\<close>

definition mse_browser :: Runtime where
  \<open>mse_browser =
     (browser_answering [''video/mp4; codecs="avc1.42E01E, mp4a.40.2"''] [])
       \<lparr>MediaSource_present := True\<rparr>\<close>

section \<open>Reading the document\<close>

text \<open>
  \<open>codecRule d c\<close> is the first codec rule of the document \<open>d\<close> whose \<^verbatim>\<open>Codec\<close> is
  \<open>c\<close>; \<open>conditionValues r p\<close> lists the values of the conditions of rule \<open>r\<close> on
  property \<open>p\<close>. \<open>dolbyVisionFallbackFamily\<close> names the seven range types of the
  Dolby Vision fallback family.
\<close>

definition codecRule :: "DeviceProfile \<Rightarrow> string \<Rightarrow> CodecProfile option" where
  "codecRule d c = find (\<lambda>r. Codec r = Some c) (CodecProfiles d)"

definition conditionValues :: "CodecProfile \<Rightarrow> string \<Rightarrow> string list" where
  "conditionValues r p = map Value (filter (\<lambda>c. Property c = p) (CodecProfile.Conditions r))"

definition dolbyVisionFallbackFamily :: "string list" where
  "dolbyVisionFallbackFamily =
     [''DOVIWithHDR10'', ''DOVIWithHDR10Plus'', ''DOVIWithSDR'', ''DOVIWithHLG'',
      ''DOVIWithEL'', ''DOVIWithELHDR10Plus'', ''DOVIInvalid'']"

text \<open>
  The facts behind the codec names. \<open>videoCodecFact rt c\<close> holds when \<open>c\<close> is one of
  \<open>h264\<close>, \<open>hevc\<close>, \<open>av1\<close> and its playability probe is true on \<open>rt\<close>;
  \<open>audioCodecFact rt c\<close> holds when \<open>c\<close> is an audio codec that \<open>getDeviceProfile\<close>
  pushes under a test and that test is true on \<open>rt\<close>. The codecs \<open>aac\<close> and \<open>mp3\<close>
  are pushed without a test; \<open>audioListBacked\<close> says that every entry of a joined
  audio codec list is one of these two or has its fact.
\<close>

definition videoCodecFact :: "Runtime \<Rightarrow> string \<Rightarrow> bool" where
  "videoCodecFact rt c =
     ((c = ''h264'' \<and> canPlayH264 rt) \<or>
      (c = ''hevc'' \<and> canPlayHevc rt) \<or>
      (c = ''av1'' \<and> canPlayAv1 rt))"

definition audioCodecFact :: "Runtime \<Rightarrow> string \<Rightarrow> bool" where
  "audioCodecFact rt c =
     ((c = ''ac3'' \<and> supportsAc3 rt) \<or>
      (c = ''eac3'' \<and> supportsEac3 rt) \<or>
      ((c = ''dca'' \<or> c = ''dts'') \<and> canPlayDts rt) \<or>
      ((c = ''pcm_s16le'' \<or> c = ''pcm_s24le'' \<or> c = ''aac_latm'') \<and> isTizen rt) \<or>
      (c = ''opus'' \<and> canPlayAudioFormat rt ''opus'') \<or>
      (c = ''flac'' \<and> canPlayAudioFormat rt ''flac'' \<and> \<not> isTizen rt))"

definition audioListBacked :: "Runtime \<Rightarrow> string \<Rightarrow> bool" where
  "audioListBacked rt a =
     list_all (\<lambda>c. c = ''aac'' \<or> c = ''mp3'' \<or> audioCodecFact rt c) (split CHR '','' a)"

text \<open>
  A direct-play rule is backed by the facts when it is either a video rule whose
  container is \<open>mp4,m4v\<close>, or \<open>mkv\<close> with MKV playable, or \<open>ts,mpegts\<close> with TS
  playable, or \<open>hls\<close> with HLS playable, whose video codecs all have their fact
  (\<open>h264\<close> in the \<open>ts,mpegts\<close> rule apart) and whose audio codec list is backed; or
  an audio rule without codec lists whose container is a playable audio format.
  A transcoding rule is backed likewise: the HLS video rule needs HLS playable, its
  container is \<open>mp4\<close> exactly when \<open>canPlayNativeHlsInFmp4\<close> holds, and an audio rule
  needs its format playable.
\<close>

definition directPlayRule_backed :: "Runtime \<Rightarrow> bool \<Rightarrow> DirectPlayProfile \<Rightarrow> bool" where
  "directPlayRule_backed rt hls r =
     ((DirectPlayProfile.Type r = ''Video'' \<and>
       (DirectPlayProfile.Container r = ''mp4,m4v'' \<or>
        (DirectPlayProfile.Container r = ''mkv'' \<and> canPlayMkv rt) \<or>
        (DirectPlayProfile.Container r = ''ts,mpegts'' \<and> canPlayTs rt) \<or>
        (DirectPlayProfile.Container r = ''hls'' \<and> hls)) \<and>
       (case DirectPlayProfile.VideoCodec r of
          None \<Rightarrow> False
        | Some v \<Rightarrow>
            list_all (\<lambda>c. videoCodecFact rt c \<or>
                          (DirectPlayProfile.Container r = ''ts,mpegts'' \<and> c = ''h264''))
              (split CHR '','' v)) \<and>
       (case DirectPlayProfile.AudioCodec r of
          None \<Rightarrow> False
        | Some a \<Rightarrow> audioListBacked rt a)) \<or>
      (DirectPlayProfile.Type r = ''Audio'' \<and>
       DirectPlayProfile.VideoCodec r = None \<and> DirectPlayProfile.AudioCodec r = None \<and>
       canPlayAudioFormat rt (DirectPlayProfile.Container r)))"

definition transcodingRule_backed :: "Runtime \<Rightarrow> bool \<Rightarrow> TranscodingProfile \<Rightarrow> bool" where
  "transcodingRule_backed rt hls t =
     ((TranscodingProfile.Type t = ''Video'' \<and> Protocol t = ''hls'' \<and> hls \<and>
       ((TranscodingProfile.Container t = ''mp4'' \<and> canPlayNativeHlsInFmp4 rt) \<or>
        (TranscodingProfile.Container t = ''ts'' \<and> \<not> canPlayNativeHlsInFmp4 rt)) \<and>
       (case TranscodingProfile.VideoCodec t of
          None \<Rightarrow> False
        | Some v \<Rightarrow> list_all (videoCodecFact rt) (split CHR '','' v)) \<and>
       audioListBacked rt (TranscodingProfile.AudioCodec t)) \<or>
      (TranscodingProfile.Type t = ''Audio'' \<and> Protocol t = ''http'' \<and>
       TranscodingProfile.VideoCodec t = None \<and>
       TranscodingProfile.AudioCodec t = TranscodingProfile.Container t \<and>
       canPlayAudioFormat rt (TranscodingProfile.Container t)))"

text \<open>
  \<open>audioPushOrder\<close> is the order in which \<open>getDeviceProfile\<close> pushes audio codecs.
  \<open>audioList_grows rt rt' a a'\<close> compares the joined audio codec list \<open>a\<close> built on
  \<open>rt\<close> with the list \<open>a'\<close> built on \<open>rt'\<close>: \<open>a\<close> is a subsequence of \<open>a'\<close>, \<open>a'\<close> is
  in push order, and every entry of \<open>a'\<close> is an entry of \<open>a\<close> or a codec whose fact
  is false on \<open>rt\<close> and true on \<open>rt'\<close>. A direct-play rule \<open>r\<close> is kept by \<open>r'\<close> when
  \<open>r'\<close> has the container, media type and video codecs of \<open>r\<close> and the audio codec
  list grows in that sense (both absent for an audio rule). A transcoding rule is
  kept when all its fields but the audio codec list are equal and the audio codec
  list is equal or grows.
\<close>

definition audioPushOrder :: "string list" where
  "audioPushOrder =
     [''aac'', ''mp3'', ''ac3'', ''eac3'', ''dca'', ''dts'', ''pcm_s16le'', ''pcm_s24le'',
      ''aac_latm'', ''opus'', ''flac'']"

definition audioList_grows :: "Runtime \<Rightarrow> Runtime \<Rightarrow> string \<Rightarrow> string \<Rightarrow> bool" where
  "audioList_grows rt rt' a a' =
     (subseq (split CHR '','' a) (split CHR '','' a') \<and>
      subseq (split CHR '','' a') audioPushOrder \<and>
      list_all (\<lambda>c. c \<in> set (split CHR '','' a) \<or> (audioCodecFact rt' c \<and> \<not> audioCodecFact rt c))
        (split CHR '','' a'))"

definition directPlayRule_kept ::
  "Runtime \<Rightarrow> Runtime \<Rightarrow> DirectPlayProfile \<Rightarrow> DirectPlayProfile \<Rightarrow> bool" where
  "directPlayRule_kept rt rt' r r' =
     (DirectPlayProfile.Container r' = DirectPlayProfile.Container r \<and>
      DirectPlayProfile.Type r' = DirectPlayProfile.Type r \<and>
      DirectPlayProfile.VideoCodec r' = DirectPlayProfile.VideoCodec r \<and>
      rel_option (audioList_grows rt rt')
        (DirectPlayProfile.AudioCodec r) (DirectPlayProfile.AudioCodec r'))"

definition transcodingRule_kept ::
  "Runtime \<Rightarrow> Runtime \<Rightarrow> TranscodingProfile \<Rightarrow> TranscodingProfile \<Rightarrow> bool" where
  "transcodingRule_kept rt rt' t t' =
     (t' = t\<lparr>TranscodingProfile.AudioCodec := TranscodingProfile.AudioCodec t'\<rparr> \<and>
      (TranscodingProfile.AudioCodec t' = TranscodingProfile.AudioCodec t \<or>
       audioList_grows rt rt' (TranscodingProfile.AudioCodec t) (TranscodingProfile.AudioCodec t')))"

section \<open>The sections of the returned profile\<close>

lemma canPlayHls_again: "canPlayHls rt (snd (canPlayHls rt memo)) = canPlayHls rt memo"
  by (cases memo) (simp_all add: canPlayHls_def Let_def)

lemma DirectPlayProfiles_getDeviceProfile:
  "DirectPlayProfiles (fst (getDeviceProfile rt memo)) = directPlayProfiles rt (fst (canPlayHls rt memo))"
  by (simp add: getDeviceProfile_def split_def Let_def)

lemma TranscodingProfiles_getDeviceProfile:
  "TranscodingProfiles (fst (getDeviceProfile rt memo)) = transcodingProfiles rt (fst (canPlayHls rt memo))"
  by (simp add: getDeviceProfile_def split_def Let_def canPlayHls_again)

lemma ContainerProfiles_getDeviceProfile:
  "ContainerProfiles (fst (getDeviceProfile rt memo)) = containerProfiles rt"
  by (simp add: getDeviceProfile_def split_def Let_def)

lemma CodecProfiles_getDeviceProfile:
  "CodecProfiles (fst (getDeviceProfile rt memo)) = codecProfiles rt"
  by (simp add: getDeviceProfile_def split_def Let_def)

lemma memo_getDeviceProfile:
  "snd (getDeviceProfile rt memo) = snd (canPlayHls rt memo)"
  by (simp add: getDeviceProfile_def split_def Let_def canPlayHls_again)

lemma not_isTizen_h264_only_browser: "\<not> isTizen h264_only_browser"
  by (simp add: isTizen_def h264_only_browser_def indexOf_def toLowerCase_def toLowerCase_char_def)

section \<open>Facts of the example runtimes\<close>

lemma regex_match_Tizen_5_5: "regex_match ''Tizen 5.5'' = Some (''5'', ''5'')"
  by (simp add: match_here_def ascii_lower_def is_space_def is_digit_def char_of_eq_iff Let_def)

lemma parseInt_5: "parseInt ''5'' = 5"
  by (simp add: parseInt_def)

lemma isTizen_tv_5_5_fhd: "isTizen tv_5_5_fhd"
  by (simp add: isTizen_def tv_5_5_fhd_def)

lemma getTizenVersion_tv_5_5_fhd: "getTizenVersion tv_5_5_fhd = 11 / 2"
proof -
  have "userAgent tv_5_5_fhd = ''Tizen 5.5''" by (simp add: tv_5_5_fhd_def)
  then show ?thesis by (simp add: getTizenVersion_def isTizen_tv_5_5_fhd regex_match_Tizen_5_5 parseInt_5
      del: regex_match.simps)
qed

lemma isTizen_tv_5_5_panel_throws: "isTizen tv_5_5_panel_throws"
  by (simp add: isTizen_def tv_5_5_panel_throws_def)

section \<open>Numbers as strings\<close>

lemma toString_2: "toString 2 = ''2''"
  by (simp add: toString.simps char_of_eq_iff)

lemma toString_6: "toString 6 = ''6''"
  by (simp add: toString.simps char_of_eq_iff)

lemma toString_42: "toString 42 = ''42''"
  by (simp add: toString.simps char_of_eq_iff)

lemma toString_51: "toString 51 = ''51''"
  by (simp add: toString.simps char_of_eq_iff)

lemma toString_52: "toString 52 = ''52''"
  by (simp add: toString.simps char_of_eq_iff)

lemma toString_120: "toString 120 = ''120''"
  by (simp add: toString.simps char_of_eq_iff)

lemma toString_153: "toString 153 = ''153''"
  by (simp add: toString.simps char_of_eq_iff)

lemma toString_20000000: "toString 20000000 = ''20000000''"
  by (simp add: toString.simps char_of_eq_iff)

section \<open>The global bitrate ceiling\<close>

lemma getGlobalMaxVideoBitrate_eq:
  "getGlobalMaxVideoBitrate rt =
     (if isTizen rt \<and> webapis rt = Webapis (Some (Returns False)) then Some 20000000 else None)"
  by (auto simp: getGlobalMaxVideoBitrate_def panel_try_def isUdPanelSupported_def
           split: webapis_global.splits option.splits panel_query.splits sum.splits)

lemma bitrateCondition_cases:
  "bitrateCondition (getGlobalMaxVideoBitrate rt) =
     (if getGlobalMaxVideoBitrate rt = None then []
      else [\<lparr>Condition = ''LessThanEqual'', Property = ''VideoBitrate'',
              Value = toString 20000000, IsRequired = Some True\<rparr>])"
  by (simp add: bitrateCondition_def getGlobalMaxVideoBitrate_eq)

lemma getGlobalMaxVideoBitrate_tv_5_5_fhd: "getGlobalMaxVideoBitrate tv_5_5_fhd = Some 20000000"
  by (simp add: getGlobalMaxVideoBitrate_eq isTizen_tv_5_5_fhd) (simp add: tv_5_5_fhd_def)

section \<open>The stream-count cap outside the TV platform\<close>

text \<open>
  C10. On every runtime that is not the TV platform, \<open>getTizenVersion\<close> is 0, and the
  profile therefore carries the container rule that caps the number of streams at
  32 (\<open>LessThanEqual\<close>, \<open>NumStreams\<close>, \<open>32\<close>, not required): the cap is advertised on
  every generic browser, whatever the memo holds.
\<close>

theorem generic_browser_stream_cap:
  assumes "\<not> isTizen rt"
  shows "getTizenVersion rt = 0 \<and>
         ContainerProfiles (fst (getDeviceProfile rt memo)) =
           [\<lparr>ContainerProfile.Type = ''Video'',
             ContainerProfile.Conditions =
               [\<lparr>Condition = ''LessThanEqual'', Property = ''NumStreams'', Value = ''32'',
                 IsRequired = Some False\<rparr>]\<rparr>]"
proof -
  from assms have v: "getTizenVersion rt = 0"
    by (simp add: getTizenVersion_def)
  then have "containerProfiles rt =
           [\<lparr>ContainerProfile.Type = ''Video'',
             ContainerProfile.Conditions =
               [\<lparr>Condition = ''LessThanEqual'', Property = ''NumStreams'', Value = ''32'',
                 IsRequired = Some False\<rparr>]\<rparr>]"
    by (simp add: containerProfiles_def)
  with v show ?thesis
    by (simp add: ContainerProfiles_getDeviceProfile)
qed

theorem generic_browser_stream_cap_witness:
  "\<not> isTizen h264_only_browser \<and>
   getTizenVersion h264_only_browser = 0 \<and>
   ContainerProfiles (fst (getDeviceProfile h264_only_browser None)) =
     [\<lparr>ContainerProfile.Type = ''Video'',
       ContainerProfile.Conditions =
         [\<lparr>Condition = ''LessThanEqual'', Property = ''NumStreams'', Value = ''32'',
           IsRequired = Some False\<rparr>]\<rparr>]"
  using generic_browser_stream_cap [OF not_isTizen_h264_only_browser, of None]
        not_isTizen_h264_only_browser
  by simp

section \<open>The bitrate condition of the codec rules\<close>

lemma codec_named_cases:
  assumes "r \<in> set (codecProfiles rt)" and "Codec r \<noteq> None"
  shows "CodecProfile.Conditions r = h264Conditions rt \<or>
         CodecProfile.Conditions r = hevcConditions rt \<or>
         CodecProfile.Conditions r = av1Conditions rt"
  using assms
  by (auto simp: codecProfiles_def globalVideoConditions_def split: if_splits option.splits)

text \<open>
  C2. In every returned profile, each codec rule for \<open>h264\<close>, \<open>hevc\<close> or \<open>av1\<close> has a
  condition on \<open>VideoBitrate\<close> if and only if \<open>getGlobalMaxVideoBitrate\<close> returned a
  ceiling, and every such condition has \<open>IsRequired = true\<close>.
\<close>

theorem codec_bitrate_condition_required:
  "\<forall>r \<in> set (CodecProfiles (fst (getDeviceProfile rt memo))).
     Codec r \<in> {Some ''h264'', Some ''hevc'', Some ''av1''} \<longrightarrow>
       ((\<exists>c \<in> set (CodecProfile.Conditions r). Property c = ''VideoBitrate'') \<longleftrightarrow>
          getGlobalMaxVideoBitrate rt \<noteq> None) \<and>
       (\<forall>c \<in> set (CodecProfile.Conditions r). Property c = ''VideoBitrate'' \<longrightarrow> IsRequired c = Some True)"
proof (intro ballI impI)
  fix r
  assume r: "r \<in> set (CodecProfiles (fst (getDeviceProfile rt memo)))"
    and c: "Codec r \<in> {Some ''h264'', Some ''hevc'', Some ''av1''}"
  from r have "r \<in> set (codecProfiles rt)"
    by (simp add: CodecProfiles_getDeviceProfile)
  moreover from c have "Codec r \<noteq> None" by auto
  ultimately consider "CodecProfile.Conditions r = h264Conditions rt"
    | "CodecProfile.Conditions r = hevcConditions rt"
    | "CodecProfile.Conditions r = av1Conditions rt"
    using codec_named_cases by blast
  then show "((\<exists>c \<in> set (CodecProfile.Conditions r). Property c = ''VideoBitrate'') \<longleftrightarrow>
          getGlobalMaxVideoBitrate rt \<noteq> None) \<and>
       (\<forall>c \<in> set (CodecProfile.Conditions r). Property c = ''VideoBitrate'' \<longrightarrow> IsRequired c = Some True)"
  proof cases
    case 1
    then show ?thesis by (simp add: h264Conditions_def bitrateCondition_cases)
  next
    case 2
    then show ?thesis by (simp add: hevcConditions_def bitrateCondition_cases)
  next
    case 3
    then show ?thesis by (simp add: av1Conditions_def bitrateCondition_cases)
  qed
qed

theorem codec_bitrate_condition_required_witness:
  "\<lparr>CodecProfile.Type = ''Video'', Codec = Some ''h264'',
     CodecProfile.Conditions = h264Conditions tv_5_5_fhd\<rparr>
     \<in> set (CodecProfiles (fst (getDeviceProfile tv_5_5_fhd None))) \<and>
   getGlobalMaxVideoBitrate tv_5_5_fhd \<noteq> None \<and>
   (\<exists>c \<in> set (h264Conditions tv_5_5_fhd). Property c = ''VideoBitrate'' \<and> IsRequired c = Some True)"
proof -
  let ?r = "\<lparr>CodecProfile.Type = ''Video'', Codec = Some ''h264'',
     CodecProfile.Conditions = h264Conditions tv_5_5_fhd\<rparr>"
  have m: "?r \<in> set (CodecProfiles (fst (getDeviceProfile tv_5_5_fhd None)))"
    by (simp add: CodecProfiles_getDeviceProfile codecProfiles_def)
  have g: "getGlobalMaxVideoBitrate tv_5_5_fhd \<noteq> None"
    by (simp add: getGlobalMaxVideoBitrate_tv_5_5_fhd)
  from codec_bitrate_condition_required [of tv_5_5_fhd None, THEN bspec, OF m] g
  have "(\<exists>c \<in> set (h264Conditions tv_5_5_fhd). Property c = ''VideoBitrate'') \<and>
        (\<forall>c \<in> set (h264Conditions tv_5_5_fhd). Property c = ''VideoBitrate'' \<longrightarrow> IsRequired c = Some True)"
    by simp
  then have "\<exists>c \<in> set (h264Conditions tv_5_5_fhd). Property c = ''VideoBitrate'' \<and> IsRequired c = Some True"
    by blast
  with m g show ?thesis by blast
qed

section \<open>Dolby Vision\<close>

lemma split_hevc_sdr: "split CHR ''|'' ''SDR'' = [''SDR'']"
  by simp

lemma split_hevc_hdr: "split CHR ''|'' ''SDR|HDR10|HDR10Plus|HLG'' = [''SDR'', ''HDR10'', ''HDR10Plus'', ''HLG'']"
  by simp

lemma split_hevc_dovi:
  "split CHR ''|'' ''SDR|HDR10|HDR10Plus|HLG|DOVIWithHDR10|DOVIWithHDR10Plus|DOVIWithSDR|DOVIWithHLG|DOVIWithEL|DOVIWithELHDR10Plus|DOVIInvalid'' =
     [''SDR'', ''HDR10'', ''HDR10Plus'', ''HLG'', ''DOVIWithHDR10'', ''DOVIWithHDR10Plus'',
      ''DOVIWithSDR'', ''DOVIWithHLG'', ''DOVIWithEL'', ''DOVIWithELHDR10Plus'', ''DOVIInvalid'']"
  by simp

lemma codecRule_hevc:
  "codecRule (fst (getDeviceProfile rt memo)) ''hevc'' =
     Some \<lparr>CodecProfile.Type = ''Video'', Codec = Some ''hevc'',
            CodecProfile.Conditions = hevcConditions rt\<rparr>"
  by (simp add: codecRule_def CodecProfiles_getDeviceProfile codecProfiles_def)

lemma hevcVideoRangeTypes_cases:
  "hevcVideoRangeTypes rt =
     (if isTizen rt then
        (if getTizenVersion rt \<ge> 3
         then ''SDR|HDR10|HDR10Plus|HLG|DOVIWithHDR10|DOVIWithHDR10Plus|DOVIWithSDR|DOVIWithHLG|DOVIWithEL|DOVIWithELHDR10Plus|DOVIInvalid''
         else ''SDR|HDR10|HDR10Plus|HLG'')
      else ''SDR'')"
  by (simp add: hevcVideoRangeTypes_def supportsHlg_def supportsHdr10_def getTizenVersion_def)

lemma split_range_hevc:
  "split CHR ''|'' (hevcVideoRangeTypes rt) =
     [''SDR'']
     @ (if isTizen rt then [''HDR10'', ''HDR10Plus'', ''HLG''] else [])
     @ (if getTizenVersion rt \<ge> 3 then dolbyVisionFallbackFamily else [])"
proof -
  have "\<not> isTizen rt \<Longrightarrow> \<not> getTizenVersion rt \<ge> 3"
    by (simp add: getTizenVersion_def)
  then show ?thesis
    unfolding hevcVideoRangeTypes_cases dolbyVisionFallbackFamily_def
    by (auto simp only: split_hevc_sdr split_hevc_hdr split_hevc_dovi append.simps if_True if_False split: if_splits)
qed

text \<open>
  C3. \<open>supportsDolbyVision\<close> is false on every runtime. At the same time the \<open>hevc\<close>
  codec rule of the returned profile has exactly one \<open>VideoRangeType\<close> condition,
  and its value, read as a \<open>|\<close>-separated set, contains the whole Dolby Vision
  fallback family when the platform version is at least 3 and no entry starting with
  \<open>DOVI\<close> when the version is below 3.
\<close>

theorem dolby_vision_policy:
  "\<not> supportsDolbyVision rt \<and>
   (\<exists>h v. codecRule (fst (getDeviceProfile rt memo)) ''hevc'' = Some h \<and>
          conditionValues h ''VideoRangeType'' = [v] \<and>
          (getTizenVersion rt \<ge> 3 \<longrightarrow> set dolbyVisionFallbackFamily \<subseteq> set (split CHR ''|'' v)) \<and>
          (getTizenVersion rt < 3 \<longrightarrow> (\<forall>x \<in> set (split CHR ''|'' v). \<not> prefix ''DOVI'' x)))"
proof -
  have v: "conditionValues \<lparr>CodecProfile.Type = ''Video'', Codec = Some ''hevc'',
            CodecProfile.Conditions = hevcConditions rt\<rparr> ''VideoRangeType'' = [hevcVideoRangeTypes rt]"
    by (simp add: conditionValues_def hevcConditions_def bitrateCondition_cases)
  have ge: "getTizenVersion rt \<ge> 3 \<longrightarrow>
      set dolbyVisionFallbackFamily \<subseteq> set (split CHR ''|'' (hevcVideoRangeTypes rt))"
    by (auto simp: split_range_hevc)
  have lt: "getTizenVersion rt < 3 \<longrightarrow>
      (\<forall>x \<in> set (split CHR ''|'' (hevcVideoRangeTypes rt)). \<not> prefix ''DOVI'' x)"
    by (auto simp: split_range_hevc)
  show ?thesis
    using v ge lt by (simp add: supportsDolbyVision_def codecRule_hevc)
qed

theorem dolby_vision_policy_witness:
  "getTizenVersion tv_5_5_fhd \<ge> 3 \<and>
   \<not> supportsDolbyVision tv_5_5_fhd \<and>
   (\<exists>h v. codecRule (fst (getDeviceProfile tv_5_5_fhd None)) ''hevc'' = Some h \<and>
          conditionValues h ''VideoRangeType'' = [v] \<and>
          set dolbyVisionFallbackFamily \<subseteq> set (split CHR ''|'' v))"
  using dolby_vision_policy [of tv_5_5_fhd None]
  by (simp add: getTizenVersion_tv_5_5_fhd)

section \<open>The AV1 codec rule\<close>

lemma canPlayAv1_tv_5_5_fhd: "canPlayAv1 tv_5_5_fhd"
  by (simp add: canPlayAv1_def getTizenVersion_tv_5_5_fhd)

lemma getMaxHevcLevel_tv_5_5_fhd: "getMaxHevcLevel tv_5_5_fhd = 153"
  by (simp add: getMaxHevcLevel_def isTizen_tv_5_5_fhd)
     (simp add: tv_5_5_fhd_def canPlayTypeNotNo_def)

lemma getHevcProfiles_tv_5_5_fhd: "getHevcProfiles tv_5_5_fhd = ''main|main 10''"
  by (simp add: getHevcProfiles_def isTizen_tv_5_5_fhd)

lemma split_av1_hdr_dovi:
  "split CHR ''|'' ''SDR|HDR10|HDR10Plus|HLG|DOVIWithHDR10|DOVIWithHDR10Plus|DOVIWithEL|DOVIWithELHDR10Plus|DOVIInvalid'' =
     [''SDR'', ''HDR10'', ''HDR10Plus'', ''HLG'', ''DOVIWithHDR10'', ''DOVIWithHDR10Plus'',
      ''DOVIWithEL'', ''DOVIWithELHDR10Plus'', ''DOVIInvalid'']"
  by simp

lemma av1VideoRangeTypes_cases:
  "av1VideoRangeTypes rt =
     (if isTizen rt then
        (if getTizenVersion rt \<ge> 3
         then ''SDR|HDR10|HDR10Plus|HLG|DOVIWithHDR10|DOVIWithHDR10Plus|DOVIWithEL|DOVIWithELHDR10Plus|DOVIInvalid''
         else ''SDR|HDR10|HDR10Plus|HLG'')
      else ''SDR'')"
  by (simp add: av1VideoRangeTypes_def supportsHlg_def supportsHdr10_def getTizenVersion_def)

lemma split_range_av1:
  "split CHR ''|'' (av1VideoRangeTypes rt) =
     [''SDR'']
     @ (if isTizen rt then [''HDR10'', ''HDR10Plus'', ''HLG''] else [])
     @ (if getTizenVersion rt \<ge> 3
        then [''DOVIWithHDR10'', ''DOVIWithHDR10Plus'', ''DOVIWithEL'', ''DOVIWithELHDR10Plus'',
              ''DOVIInvalid'']
        else [])"
proof -
  have "\<not> isTizen rt \<Longrightarrow> \<not> getTizenVersion rt \<ge> 3"
    by (simp add: getTizenVersion_def)
  then show ?thesis
    unfolding av1VideoRangeTypes_cases
    by (auto simp only: split_hevc_sdr split_hevc_hdr split_av1_hdr_dovi append.simps if_True if_False split: if_splits)
qed

lemma range_sets_differ_by_two:
  "set (split CHR ''|'' (av1VideoRangeTypes rt)) =
     set (split CHR ''|'' (hevcVideoRangeTypes rt)) - {''DOVIWithSDR'', ''DOVIWithHLG''}"
  unfolding split_range_av1 split_range_hevc dolbyVisionFallbackFamily_def
  by (cases "isTizen rt"; cases "getTizenVersion rt \<ge> 3"; simp; fastforce)

lemma codecRule_av1:
  "codecRule (fst (getDeviceProfile rt memo)) ''av1'' =
     (if canPlayAv1 rt
      then Some \<lparr>CodecProfile.Type = ''Video'', Codec = Some ''av1'',
                 CodecProfile.Conditions = av1Conditions rt\<rparr>
      else None)"
  by (simp add: codecRule_def CodecProfiles_getDeviceProfile codecProfiles_def
        globalVideoConditions_def split: option.splits)

lemma conditionValues_av1:
  "conditionValues \<lparr>CodecProfile.Type = ''Video'', Codec = Some ''av1'',
      CodecProfile.Conditions = av1Conditions rt\<rparr> ''VideoProfile'' = [''main'']"
  "conditionValues \<lparr>CodecProfile.Type = ''Video'', Codec = Some ''av1'',
      CodecProfile.Conditions = av1Conditions rt\<rparr> ''VideoLevel'' = [''15'']"
  "conditionValues \<lparr>CodecProfile.Type = ''Video'', Codec = Some ''av1'',
      CodecProfile.Conditions = av1Conditions rt\<rparr> ''VideoRangeType'' = [av1VideoRangeTypes rt]"
  "conditionValues \<lparr>CodecProfile.Type = ''Video'', Codec = Some ''av1'',
      CodecProfile.Conditions = av1Conditions rt\<rparr> ''VideoBitrate'' =
     map Value (bitrateCondition (getGlobalMaxVideoBitrate rt))"
  by (simp_all add: conditionValues_def av1Conditions_def bitrateCondition_cases)

lemma conditionValues_hevc:
  "conditionValues \<lparr>CodecProfile.Type = ''Video'', Codec = Some ''hevc'',
      CodecProfile.Conditions = hevcConditions rt\<rparr> ''VideoRangeType'' = [hevcVideoRangeTypes rt]"
  "conditionValues \<lparr>CodecProfile.Type = ''Video'', Codec = Some ''hevc'',
      CodecProfile.Conditions = hevcConditions rt\<rparr> ''VideoBitrate'' =
     map Value (bitrateCondition (getGlobalMaxVideoBitrate rt))"
  by (simp_all add: conditionValues_def hevcConditions_def bitrateCondition_cases)

lemma av1_hevc_same_shape:
  "map Condition (av1Conditions rt) = map Condition (hevcConditions rt)"
  "map Property (av1Conditions rt) = map Property (hevcConditions rt)"
  "map IsRequired (av1Conditions rt) = map IsRequired (hevcConditions rt)"
  by (simp_all add: av1Conditions_def hevcConditions_def)

text \<open>
  On a Tizen 5.5 television with a panel that is not UHD, AV1 is playable and the
  version is at least 3. The \<open>hevc\<close> rule (index 1) then lists eleven range types,
  the \<open>av1\<close> rule (index 2) nine: \<open>DOVIWithSDR\<close> and \<open>DOVIWithHLG\<close> are in the first
  and not in the second.
\<close>

theorem av1_rule_counterexample:
  "canPlayAv1 tv_5_5_fhd \<and> 3 \<le> getTizenVersion tv_5_5_fhd \<and>
   map Codec (CodecProfiles (fst (getDeviceProfile tv_5_5_fhd None))) =
     [Some ''h264'', Some ''hevc'', Some ''av1'', None, None] \<and>
   map Value (CodecProfile.Conditions (CodecProfiles (fst (getDeviceProfile tv_5_5_fhd None)) ! 1)) =
     [''main|main 10'',
      ''SDR|HDR10|HDR10Plus|HLG|DOVIWithHDR10|DOVIWithHDR10Plus|DOVIWithSDR|DOVIWithHLG|DOVIWithEL|DOVIWithELHDR10Plus|DOVIInvalid'',
      ''153'', ''20000000''] \<and>
   map Value (CodecProfile.Conditions (CodecProfiles (fst (getDeviceProfile tv_5_5_fhd None)) ! 2)) =
     [''main'',
      ''SDR|HDR10|HDR10Plus|HLG|DOVIWithHDR10|DOVIWithHDR10Plus|DOVIWithEL|DOVIWithELHDR10Plus|DOVIInvalid'',
      ''15'', ''20000000'']"
proof -
  have h: "hevcVideoRangeTypes tv_5_5_fhd =
      ''SDR|HDR10|HDR10Plus|HLG|DOVIWithHDR10|DOVIWithHDR10Plus|DOVIWithSDR|DOVIWithHLG|DOVIWithEL|DOVIWithELHDR10Plus|DOVIInvalid''"
    by (simp add: hevcVideoRangeTypes_cases isTizen_tv_5_5_fhd getTizenVersion_tv_5_5_fhd)
  have a: "av1VideoRangeTypes tv_5_5_fhd =
      ''SDR|HDR10|HDR10Plus|HLG|DOVIWithHDR10|DOVIWithHDR10Plus|DOVIWithEL|DOVIWithELHDR10Plus|DOVIInvalid''"
    by (simp add: av1VideoRangeTypes_cases isTizen_tv_5_5_fhd getTizenVersion_tv_5_5_fhd)
  have c: "codecProfiles tv_5_5_fhd =
     [\<lparr>CodecProfile.Type = ''Video'', Codec = Some ''h264'',
       CodecProfile.Conditions = h264Conditions tv_5_5_fhd\<rparr>,
      \<lparr>CodecProfile.Type = ''Video'', Codec = Some ''hevc'',
       CodecProfile.Conditions = hevcConditions tv_5_5_fhd\<rparr>,
      \<lparr>CodecProfile.Type = ''Video'', Codec = Some ''av1'',
       CodecProfile.Conditions = av1Conditions tv_5_5_fhd\<rparr>]
     @ globalVideoConditions (Some 20000000)
     @ [\<lparr>CodecProfile.Type = ''VideoAudio'', Codec = None,
         CodecProfile.Conditions =
           [\<lparr>Condition = ''LessThanEqual'', Property = ''AudioChannels'',
             Value = toString (getPhysicalAudioChannels tv_5_5_fhd), IsRequired = Some False\<rparr>]\<rparr>]"
    by (simp add: codecProfiles_def canPlayAv1_tv_5_5_fhd getGlobalMaxVideoBitrate_tv_5_5_fhd)
  have hv: "map Value (hevcConditions tv_5_5_fhd) =
     [''main|main 10'', hevcVideoRangeTypes tv_5_5_fhd, ''153'', ''20000000'']"
    by (simp add: hevcConditions_def getHevcProfiles_tv_5_5_fhd getMaxHevcLevel_tv_5_5_fhd
          toString_153 toString_20000000 bitrateCondition_def getGlobalMaxVideoBitrate_tv_5_5_fhd)
  have av: "map Value (av1Conditions tv_5_5_fhd) =
     [''main'', av1VideoRangeTypes tv_5_5_fhd, ''15'', ''20000000'']"
    by (simp add: av1Conditions_def toString_20000000 bitrateCondition_def
          getGlobalMaxVideoBitrate_tv_5_5_fhd)
  show ?thesis
    unfolding CodecProfiles_getDeviceProfile c
    by (simp add: canPlayAv1_tv_5_5_fhd getTizenVersion_tv_5_5_fhd globalVideoConditions_def hv av)
       (simp add: h a)
qed

text \<open>
  C5, as the code has it. The profile has a codec rule for \<open>av1\<close> exactly when AV1 is
  playable. That rule has the media type of the \<open>hevc\<close> rule and conditions on the
  same properties with the same operators and the same required flags; its
  \<open>VideoProfile\<close> is \<open>main\<close>, its \<open>VideoLevel\<close> ceiling is the fixed \<open>15\<close>, its
  bitrate condition is that of the \<open>hevc\<close> rule, and its range-type set is the range-type
  set of the \<open>hevc\<close> rule without \<open>DOVIWithSDR\<close> and \<open>DOVIWithHLG\<close>: the same \<open>SDR\<close>
  baseline, the same \<open>HDR10\<close>, \<open>HDR10Plus\<close> and \<open>HLG\<close> additions, and from version 3 on
  five of the seven members of the Dolby Vision fallback family.
\<close>

theorem av1_rule_mirrors_hevc_less_two:
  "(codecRule (fst (getDeviceProfile rt memo)) ''av1'' \<noteq> None \<longleftrightarrow> canPlayAv1 rt) \<and>
   (canPlayAv1 rt \<longrightarrow>
      (\<exists>a h va vh.
         codecRule (fst (getDeviceProfile rt memo)) ''av1'' = Some a \<and>
         codecRule (fst (getDeviceProfile rt memo)) ''hevc'' = Some h \<and>
         CodecProfile.Type a = CodecProfile.Type h \<and>
         conditionValues a ''VideoProfile'' = [''main''] \<and>
         conditionValues a ''VideoLevel'' = [''15''] \<and>
         conditionValues a ''VideoRangeType'' = [va] \<and>
         conditionValues h ''VideoRangeType'' = [vh] \<and>
         set (split CHR ''|'' va) =
           set (split CHR ''|'' vh) - {''DOVIWithSDR'', ''DOVIWithHLG''} \<and>
         conditionValues a ''VideoBitrate'' = conditionValues h ''VideoBitrate'' \<and>
         map Condition (CodecProfile.Conditions a) = map Condition (CodecProfile.Conditions h) \<and>
         map Property (CodecProfile.Conditions a) = map Property (CodecProfile.Conditions h) \<and>
         map IsRequired (CodecProfile.Conditions a) = map IsRequired (CodecProfile.Conditions h)))"
proof (intro conjI impI)
  show "codecRule (fst (getDeviceProfile rt memo)) ''av1'' \<noteq> None \<longleftrightarrow> canPlayAv1 rt"
    by (simp add: codecRule_av1)
next
  assume "canPlayAv1 rt"
  then have a: "codecRule (fst (getDeviceProfile rt memo)) ''av1'' =
      Some \<lparr>CodecProfile.Type = ''Video'', Codec = Some ''av1'',
             CodecProfile.Conditions = av1Conditions rt\<rparr>"
    by (simp add: codecRule_av1)
  show "\<exists>a h va vh.
         codecRule (fst (getDeviceProfile rt memo)) ''av1'' = Some a \<and>
         codecRule (fst (getDeviceProfile rt memo)) ''hevc'' = Some h \<and>
         CodecProfile.Type a = CodecProfile.Type h \<and>
         conditionValues a ''VideoProfile'' = [''main''] \<and>
         conditionValues a ''VideoLevel'' = [''15''] \<and>
         conditionValues a ''VideoRangeType'' = [va] \<and>
         conditionValues h ''VideoRangeType'' = [vh] \<and>
         set (split CHR ''|'' va) =
           set (split CHR ''|'' vh) - {''DOVIWithSDR'', ''DOVIWithHLG''} \<and>
         conditionValues a ''VideoBitrate'' = conditionValues h ''VideoBitrate'' \<and>
         map Condition (CodecProfile.Conditions a) = map Condition (CodecProfile.Conditions h) \<and>
         map Property (CodecProfile.Conditions a) = map Property (CodecProfile.Conditions h) \<and>
         map IsRequired (CodecProfile.Conditions a) = map IsRequired (CodecProfile.Conditions h)"
    by (simp add: a codecRule_hevc conditionValues_av1 conditionValues_hevc
          av1_hevc_same_shape range_sets_differ_by_two)
qed

theorem av1_rule_mirrors_hevc_less_two_witness:
  "canPlayAv1 tv_5_5_fhd \<and>
   codecRule (fst (getDeviceProfile tv_5_5_fhd None)) ''av1'' \<noteq> None \<and>
   (\<exists>a h. codecRule (fst (getDeviceProfile tv_5_5_fhd None)) ''av1'' = Some a \<and>
          codecRule (fst (getDeviceProfile tv_5_5_fhd None)) ''hevc'' = Some h \<and>
          conditionValues a ''VideoLevel'' = [''15''] \<and>
          conditionValues a ''VideoBitrate'' = conditionValues h ''VideoBitrate'')"
  using av1_rule_mirrors_hevc_less_two [of tv_5_5_fhd None] canPlayAv1_tv_5_5_fhd
  by blast

section \<open>Joined lists read back\<close>

text \<open>
  Splitting a joined list at the separator gives the list back, provided the list is
  not empty and no element contains the separator. Every codec list of the profile
  is of that kind.
\<close>

lemma split_no_sep: "sep \<notin> set x \<Longrightarrow> split sep x = [x]"
  by (induction x) auto

lemma split_append_sep: "sep \<notin> set x \<Longrightarrow> split sep (x @ sep # rest) = x # split sep rest"
  by (induction x) (auto split: list.splits)

lemma split_join:
  "xs \<noteq> [] \<Longrightarrow> \<forall>x \<in> set xs. sep \<notin> set x \<Longrightarrow> split sep (join [sep] xs) = xs"
proof (induction "[sep]" xs rule: join.induct)
  case 1
  then show ?case by simp
next
  case (2 x)
  then show ?case by (simp add: split_no_sep)
next
  case (3 x y ys)
  then show ?case by (simp add: split_append_sep)
qed

lemma videoAudioCodecs_no_comma: "\<forall>x \<in> set (videoAudioCodecs rt). CHR '','' \<notin> set x"
  by (auto simp: videoAudioCodecs_def)

lemma hlsAudioCodecs_no_comma: "\<forall>x \<in> set (hlsAudioCodecs rt). CHR '','' \<notin> set x"
  by (auto simp: hlsAudioCodecs_def)

lemma split_videoAudioCodecs:
  "split CHR '','' (join '','' (videoAudioCodecs rt)) = videoAudioCodecs rt"
  by (rule split_join) (simp_all add: videoAudioCodecs_no_comma, simp add: videoAudioCodecs_def)

lemma split_hlsAudioCodecs:
  "split CHR '','' (join '','' (hlsAudioCodecs rt)) = hlsAudioCodecs rt"
  by (rule split_join) (simp_all add: hlsAudioCodecs_no_comma, simp add: hlsAudioCodecs_def)

lemma split_mp4VideoCodecs:
  "mp4VideoCodecs rt \<noteq> [] \<Longrightarrow> split CHR '','' (join '','' (mp4VideoCodecs rt)) = mp4VideoCodecs rt"
  by (rule split_join) (auto simp: mp4VideoCodecs_def)

lemma split_mkvVideoCodecs:
  "mkvVideoCodecs rt \<noteq> [] \<Longrightarrow> split CHR '','' (join '','' (mkvVideoCodecs rt)) = mkvVideoCodecs rt"
  by (rule split_join) (auto simp: mkvVideoCodecs_def)

lemma split_hlsVideoCodecs:
  "hlsVideoCodecs rt \<noteq> [] \<Longrightarrow> split CHR '','' (join '','' (hlsVideoCodecs rt)) = hlsVideoCodecs rt"
  by (rule split_join) (auto simp: hlsVideoCodecs_def)

lemma split_tsVideoCodecs:
  "split CHR '','' (join '','' (tsVideoCodecs rt)) = tsVideoCodecs rt"
  by (rule split_join) (auto simp: tsVideoCodecs_def)

section \<open>FLAC on the TV platform\<close>

lemma flac_videoAudioCodecs: "isTizen rt \<Longrightarrow> ''flac'' \<notin> set (videoAudioCodecs rt)"
  by (simp add: videoAudioCodecs_def)

lemma flac_hlsAudioCodecs: "''flac'' \<notin> set (hlsAudioCodecs rt)"
  by (simp add: hlsAudioCodecs_def)

lemma video_rule_audio_cases:
  assumes "r \<in> set (directPlayProfiles rt hls)" and "DirectPlayProfile.Type r = ''Video''"
  shows "DirectPlayProfile.AudioCodec r = Some (join '','' (videoAudioCodecs rt)) \<or>
         DirectPlayProfile.AudioCodec r = Some (join '','' (hlsAudioCodecs rt))"
  using assms
  by (auto simp: directPlayProfiles_def audioDirectPlay_def split: if_splits)

text \<open>
  C9. On the TV platform every video direct-play rule of the returned profile has an
  audio codec list without \<open>flac\<close>, and such rules exist; the audio-only direct-play
  rule with container \<open>flac\<close> is in the profile all the same.
\<close>

theorem tizen_flac_asymmetry:
  assumes "isTizen rt"
  shows "(\<forall>r \<in> set (DirectPlayProfiles (fst (getDeviceProfile rt memo))).
            DirectPlayProfile.Type r = ''Video'' \<longrightarrow>
              (\<exists>a. DirectPlayProfile.AudioCodec r = Some a \<and> ''flac'' \<notin> set (split CHR '','' a))) \<and>
         \<lparr>DirectPlayProfile.Container = ''flac'', DirectPlayProfile.Type = ''Audio'',
           DirectPlayProfile.VideoCodec = None, DirectPlayProfile.AudioCodec = None\<rparr>
           \<in> set (DirectPlayProfiles (fst (getDeviceProfile rt memo))) \<and>
         (\<exists>r \<in> set (DirectPlayProfiles (fst (getDeviceProfile rt memo))).
            DirectPlayProfile.Type r = ''Video'')"
proof (intro conjI ballI impI)
  fix r
  assume "r \<in> set (DirectPlayProfiles (fst (getDeviceProfile rt memo)))"
    and "DirectPlayProfile.Type r = ''Video''"
  then consider "DirectPlayProfile.AudioCodec r = Some (join '','' (videoAudioCodecs rt))"
    | "DirectPlayProfile.AudioCodec r = Some (join '','' (hlsAudioCodecs rt))"
    using video_rule_audio_cases by (auto simp: DirectPlayProfiles_getDeviceProfile)
  then show "\<exists>a. DirectPlayProfile.AudioCodec r = Some a \<and> ''flac'' \<notin> set (split CHR '','' a)"
  proof cases
    case 1
    with assms show ?thesis
      by (simp add: split_videoAudioCodecs flac_videoAudioCodecs)
  next
    case 2
    then show ?thesis
      by (simp add: split_hlsAudioCodecs flac_hlsAudioCodecs)
  qed
next
  from assms have "canPlayAudioFormat rt ''flac''"
    by (simp add: canPlayAudioFormat_def)
  then show "\<lparr>DirectPlayProfile.Container = ''flac'', DirectPlayProfile.Type = ''Audio'',
           DirectPlayProfile.VideoCodec = None, DirectPlayProfile.AudioCodec = None\<rparr>
           \<in> set (DirectPlayProfiles (fst (getDeviceProfile rt memo)))"
    by (simp add: DirectPlayProfiles_getDeviceProfile directPlayProfiles_def audioDirectPlay_def)
next
  from assms have "canPlayTs rt" by (simp add: canPlayTs_def)
  then show "\<exists>r \<in> set (DirectPlayProfiles (fst (getDeviceProfile rt memo))).
            DirectPlayProfile.Type r = ''Video''"
    by (simp add: DirectPlayProfiles_getDeviceProfile directPlayProfiles_def)
qed

theorem tizen_flac_asymmetry_witness:
  "isTizen tv_5_5_fhd \<and>
   \<lparr>DirectPlayProfile.Container = ''flac'', DirectPlayProfile.Type = ''Audio'',
     DirectPlayProfile.VideoCodec = None, DirectPlayProfile.AudioCodec = None\<rparr>
     \<in> set (DirectPlayProfiles (fst (getDeviceProfile tv_5_5_fhd None))) \<and>
   \<lparr>DirectPlayProfile.Container = ''ts,mpegts'', DirectPlayProfile.Type = ''Video'',
     DirectPlayProfile.VideoCodec = Some (join '','' (tsVideoCodecs tv_5_5_fhd)),
     DirectPlayProfile.AudioCodec = Some (join '','' (videoAudioCodecs tv_5_5_fhd))\<rparr>
     \<in> set (DirectPlayProfiles (fst (getDeviceProfile tv_5_5_fhd None))) \<and>
   ''flac'' \<notin> set (split CHR '','' (join '','' (videoAudioCodecs tv_5_5_fhd)))"
proof -
  let ?ts = "\<lparr>DirectPlayProfile.Container = ''ts,mpegts'', DirectPlayProfile.Type = ''Video'',
     DirectPlayProfile.VideoCodec = Some (join '','' (tsVideoCodecs tv_5_5_fhd)),
     DirectPlayProfile.AudioCodec = Some (join '','' (videoAudioCodecs tv_5_5_fhd))\<rparr>"
  note t = tizen_flac_asymmetry [OF isTizen_tv_5_5_fhd, of None]
  have m: "?ts \<in> set (DirectPlayProfiles (fst (getDeviceProfile tv_5_5_fhd None)))"
    by (simp add: DirectPlayProfiles_getDeviceProfile directPlayProfiles_def canPlayTs_def
          isTizen_tv_5_5_fhd)
  from t have "\<forall>r \<in> set (DirectPlayProfiles (fst (getDeviceProfile tv_5_5_fhd None))).
            DirectPlayProfile.Type r = ''Video'' \<longrightarrow>
              (\<exists>a. DirectPlayProfile.AudioCodec r = Some a \<and> ''flac'' \<notin> set (split CHR '','' a))"
    by blast
  from this [THEN bspec, OF m]
  have "''flac'' \<notin> set (split CHR '','' (join '','' (videoAudioCodecs tv_5_5_fhd)))"
    by simp
  with t m isTizen_tv_5_5_fhd show ?thesis by blast
qed

section \<open>A failing panel query\<close>

lemma panel_try_throws: "webapis rt = Webapis (Some Throws) \<Longrightarrow> panel_try rt = Inl Exception"
  by (simp add: panel_try_def isUdPanelSupported_def)

lemma no_bitrate_codecProfiles:
  assumes "getGlobalMaxVideoBitrate rt = None"
  shows "map Codec (codecProfiles rt) =
           [Some ''h264'', Some ''hevc''] @ (if canPlayAv1 rt then [Some ''av1''] else []) @ [None]"
    and "\<forall>r \<in> set (codecProfiles rt). \<forall>c \<in> set (CodecProfile.Conditions r).
           Property c \<noteq> ''VideoBitrate''"
  using assms
  by (auto simp: codecProfiles_def globalVideoConditions_def h264Conditions_def
        hevcConditions_def av1Conditions_def bitrateCondition_def)

lemma video_lists_nonempty:
  "mp4VideoCodecs rt \<noteq> [] \<longleftrightarrow> canPlayH264 rt \<or> canPlayHevc rt \<or> canPlayAv1 rt"
  "mkvVideoCodecs rt \<noteq> [] \<longleftrightarrow> canPlayH264 rt \<or> canPlayHevc rt \<or> canPlayAv1 rt"
  "hlsVideoCodecs rt \<noteq> [] \<longleftrightarrow> canPlayH264 rt \<or> (canPlayHevc rt \<and> isTizen rt)"
  by (simp_all add: mp4VideoCodecs_def mkvVideoCodecs_def hlsVideoCodecs_def)

lemma directPlay_containers:
  "map DirectPlayProfile.Container (directPlayProfiles rt hls) =
     (if canPlayH264 rt \<or> canPlayHevc rt \<or> canPlayAv1 rt then [''mp4,m4v''] else [])
     @ (if canPlayMkv rt \<and> (canPlayH264 rt \<or> canPlayHevc rt \<or> canPlayAv1 rt) then [''mkv''] else [])
     @ (if isTizen rt then [''ts,mpegts''] else [])
     @ (if hls \<and> (canPlayH264 rt \<or> (canPlayHevc rt \<and> isTizen rt)) then [''hls''] else [])
     @ filter (canPlayAudioFormat rt) [''mp3'', ''aac'', ''flac'', ''wav'', ''ogg'', ''opus'']"
  by (simp add: directPlayProfiles_def audioDirectPlay_def video_lists_nonempty canPlayTs_def)

lemma transcoding_containers:
  "map TranscodingProfile.Container (transcodingProfiles rt hls) =
     (if hls \<and> (canPlayH264 rt \<or> (canPlayHevc rt \<and> isTizen rt))
      then [if getTizenVersion rt \<ge> 5 then ''mp4'' else ''ts''] else [])
     @ filter (canPlayAudioFormat rt) [''aac'', ''mp3'', ''opus'', ''wav'']"
  by (simp add: transcodingProfiles_def audioTranscoding_def video_lists_nonempty
        canPlayNativeHlsInFmp4_def)

lemma no_ceiling_codecProfiles:
  assumes "getGlobalMaxVideoBitrate rt = None"
  shows "codecProfiles rt =
     [\<lparr>CodecProfile.Type = ''Video'', Codec = Some ''h264'',
       CodecProfile.Conditions =
         [\<lparr>Condition = ''EqualsAny'', Property = ''VideoProfile'',
           Value = ''high|main|baseline|constrained baseline'', IsRequired = Some False\<rparr>,
          \<lparr>Condition = ''EqualsAny'', Property = ''VideoRangeType'',
           Value = ''SDR'', IsRequired = Some False\<rparr>,
          \<lparr>Condition = ''LessThanEqual'', Property = ''VideoLevel'',
           Value = toString (getMaxH264Level rt), IsRequired = Some False\<rparr>]\<rparr>,
      \<lparr>CodecProfile.Type = ''Video'', Codec = Some ''hevc'',
       CodecProfile.Conditions =
         [\<lparr>Condition = ''EqualsAny'', Property = ''VideoProfile'',
           Value = getHevcProfiles rt, IsRequired = Some False\<rparr>,
          \<lparr>Condition = ''EqualsAny'', Property = ''VideoRangeType'',
           Value = hevcVideoRangeTypes rt, IsRequired = Some False\<rparr>,
          \<lparr>Condition = ''LessThanEqual'', Property = ''VideoLevel'',
           Value = toString (getMaxHevcLevel rt), IsRequired = Some False\<rparr>]\<rparr>]
     @ (if canPlayAv1 rt then
          [\<lparr>CodecProfile.Type = ''Video'', Codec = Some ''av1'',
            CodecProfile.Conditions =
              [\<lparr>Condition = ''EqualsAny'', Property = ''VideoProfile'',
                Value = ''main'', IsRequired = Some False\<rparr>,
               \<lparr>Condition = ''EqualsAny'', Property = ''VideoRangeType'',
                Value = av1VideoRangeTypes rt, IsRequired = Some False\<rparr>,
               \<lparr>Condition = ''LessThanEqual'', Property = ''VideoLevel'',
                Value = ''15'', IsRequired = Some False\<rparr>]\<rparr>]
        else [])
     @ [\<lparr>CodecProfile.Type = ''VideoAudio'', Codec = None,
         CodecProfile.Conditions =
           [\<lparr>Condition = ''LessThanEqual'', Property = ''AudioChannels'',
             Value = (if isTizen rt then ''6'' else ''2''), IsRequired = Some False\<rparr>]\<rparr>]"
  using assms
  by (simp add: codecProfiles_def globalVideoConditions_def h264Conditions_def
        hevcConditions_def av1Conditions_def bitrateCondition_def getPhysicalAudioChannels_def
        toString_6 toString_2)

text \<open>
  C8. \<open>getGlobalMaxVideoBitrate\<close> returns the ceiling 20000000 exactly when the
  runtime is the TV platform and the panel query answers "not UHD"; in every other
  case it returns \<open>None\<close>, never 0. A panel query that throws does so inside the
  guarded block (\<open>panel_try\<close> is \<open>Inl\<close>) and the probe still returns \<open>None\<close>. When
  \<^verbatim>\<open>webapis\<close> is undefined, has no \<^verbatim>\<open>productinfo\<close>, or the query throws,
  \<open>getDeviceProfile\<close> returns the whole profile of a runtime without a ceiling: the
  three fixed bitrates; one direct-play rule for each container and each audio
  format the probes allow, in source order; the HLS transcoding rule when HLS is
  playable and one audio transcoding rule for each playable format; the stream-count
  container rule below version 6.5; the codec rules for \<open>h264\<close> and \<open>hevc\<close> (and
  \<open>av1\<close> when playable) with their three conditions each and the audio-channel rule,
  none with a \<open>VideoBitrate\<close> condition; the eight subtitle rules and the response
  rule.
\<close>

theorem panel_query_fails_open:
  "getGlobalMaxVideoBitrate rt =
     (if isTizen rt \<and> webapis rt = Webapis (Some (Returns False)) then Some 20000000 else None) \<and>
   (webapis rt = Webapis (Some Throws) \<longrightarrow> panel_try rt = Inl Exception) \<and>
   (webapis rt = WebapisUndefined \<or> webapis rt = Webapis None \<or> webapis rt = Webapis (Some Throws) \<longrightarrow>
      getGlobalMaxVideoBitrate rt = None \<and>
      MaxStreamingBitrate (fst (getDeviceProfile rt memo)) = 120000000 \<and>
      MaxStaticBitrate (fst (getDeviceProfile rt memo)) = 100000000 \<and>
      MusicStreamingTranscodingBitrate (fst (getDeviceProfile rt memo)) = 384000 \<and>
      map DirectPlayProfile.Container (DirectPlayProfiles (fst (getDeviceProfile rt memo))) =
        (if canPlayH264 rt \<or> canPlayHevc rt \<or> canPlayAv1 rt then [''mp4,m4v''] else [])
        @ (if canPlayMkv rt \<and> (canPlayH264 rt \<or> canPlayHevc rt \<or> canPlayAv1 rt)
           then [''mkv''] else [])
        @ (if isTizen rt then [''ts,mpegts''] else [])
        @ (if fst (canPlayHls rt memo) \<and> (canPlayH264 rt \<or> (canPlayHevc rt \<and> isTizen rt))
           then [''hls''] else [])
        @ filter (canPlayAudioFormat rt) [''mp3'', ''aac'', ''flac'', ''wav'', ''ogg'', ''opus''] \<and>
      map TranscodingProfile.Container (TranscodingProfiles (fst (getDeviceProfile rt memo))) =
        (if fst (canPlayHls rt memo) \<and> (canPlayH264 rt \<or> (canPlayHevc rt \<and> isTizen rt))
         then [if getTizenVersion rt \<ge> 5 then ''mp4'' else ''ts''] else [])
        @ filter (canPlayAudioFormat rt) [''aac'', ''mp3'', ''opus'', ''wav''] \<and>
      ContainerProfiles (fst (getDeviceProfile rt memo)) =
        (if getTizenVersion rt < 65 / 10 then
           [\<lparr>ContainerProfile.Type = ''Video'',
             ContainerProfile.Conditions =
               [\<lparr>Condition = ''LessThanEqual'', Property = ''NumStreams'', Value = ''32'',
                 IsRequired = Some False\<rparr>]\<rparr>]
         else []) \<and>
      CodecProfiles (fst (getDeviceProfile rt memo)) =
        [\<lparr>CodecProfile.Type = ''Video'', Codec = Some ''h264'',
          CodecProfile.Conditions =
            [\<lparr>Condition = ''EqualsAny'', Property = ''VideoProfile'',
              Value = ''high|main|baseline|constrained baseline'', IsRequired = Some False\<rparr>,
             \<lparr>Condition = ''EqualsAny'', Property = ''VideoRangeType'',
              Value = ''SDR'', IsRequired = Some False\<rparr>,
             \<lparr>Condition = ''LessThanEqual'', Property = ''VideoLevel'',
              Value = toString (getMaxH264Level rt), IsRequired = Some False\<rparr>]\<rparr>,
         \<lparr>CodecProfile.Type = ''Video'', Codec = Some ''hevc'',
          CodecProfile.Conditions =
            [\<lparr>Condition = ''EqualsAny'', Property = ''VideoProfile'',
              Value = getHevcProfiles rt, IsRequired = Some False\<rparr>,
             \<lparr>Condition = ''EqualsAny'', Property = ''VideoRangeType'',
              Value = hevcVideoRangeTypes rt, IsRequired = Some False\<rparr>,
             \<lparr>Condition = ''LessThanEqual'', Property = ''VideoLevel'',
              Value = toString (getMaxHevcLevel rt), IsRequired = Some False\<rparr>]\<rparr>]
        @ (if canPlayAv1 rt then
             [\<lparr>CodecProfile.Type = ''Video'', Codec = Some ''av1'',
               CodecProfile.Conditions =
                 [\<lparr>Condition = ''EqualsAny'', Property = ''VideoProfile'',
                   Value = ''main'', IsRequired = Some False\<rparr>,
                  \<lparr>Condition = ''EqualsAny'', Property = ''VideoRangeType'',
                   Value = av1VideoRangeTypes rt, IsRequired = Some False\<rparr>,
                  \<lparr>Condition = ''LessThanEqual'', Property = ''VideoLevel'',
                   Value = ''15'', IsRequired = Some False\<rparr>]\<rparr>]
           else [])
        @ [\<lparr>CodecProfile.Type = ''VideoAudio'', Codec = None,
            CodecProfile.Conditions =
              [\<lparr>Condition = ''LessThanEqual'', Property = ''AudioChannels'',
                Value = (if isTizen rt then ''6'' else ''2''), IsRequired = Some False\<rparr>]\<rparr>] \<and>
      map Codec (CodecProfiles (fst (getDeviceProfile rt memo))) =
        [Some ''h264'', Some ''hevc''] @ (if canPlayAv1 rt then [Some ''av1''] else []) @ [None] \<and>
      (\<forall>r \<in> set (CodecProfiles (fst (getDeviceProfile rt memo))).
         \<forall>c \<in> set (CodecProfile.Conditions r). Property c \<noteq> ''VideoBitrate'') \<and>
      SubtitleProfiles (fst (getDeviceProfile rt memo)) =
        [\<lparr>Format = ''vtt'', Method = ''External''\<rparr>, \<lparr>Format = ''srt'', Method = ''External''\<rparr>,
         \<lparr>Format = ''ass'', Method = ''External''\<rparr>, \<lparr>Format = ''ssa'', Method = ''External''\<rparr>,
         \<lparr>Format = ''pgssub'', Method = ''Encode''\<rparr>, \<lparr>Format = ''dvdsub'', Method = ''Encode''\<rparr>,
         \<lparr>Format = ''dvbsub'', Method = ''Encode''\<rparr>, \<lparr>Format = ''sub'', Method = ''Encode''\<rparr>] \<and>
      ResponseProfiles (fst (getDeviceProfile rt memo)) =
        [\<lparr>ResponseProfile.Type = ''Video'', ResponseProfile.Container = ''m4v'',
          MimeType = ''video/mp4''\<rparr>])"
proof (intro conjI impI)
  show "getGlobalMaxVideoBitrate rt =
     (if isTizen rt \<and> webapis rt = Webapis (Some (Returns False)) then Some 20000000 else None)"
    by (rule getGlobalMaxVideoBitrate_eq)
next
  assume "webapis rt = Webapis (Some Throws)"
  then show "panel_try rt = Inl Exception" by (rule panel_try_throws)
next
  assume a: "webapis rt = WebapisUndefined \<or> webapis rt = Webapis None \<or> webapis rt = Webapis (Some Throws)"
  then show n: "getGlobalMaxVideoBitrate rt = None"
    by (auto simp: getGlobalMaxVideoBitrate_eq)
  show "MaxStreamingBitrate (fst (getDeviceProfile rt memo)) = 120000000"
    by (simp add: getDeviceProfile_def split_def Let_def)
  show "MaxStaticBitrate (fst (getDeviceProfile rt memo)) = 100000000"
    by (simp add: getDeviceProfile_def split_def Let_def)
  show "MusicStreamingTranscodingBitrate (fst (getDeviceProfile rt memo)) = 384000"
    by (simp add: getDeviceProfile_def split_def Let_def)
  show "map DirectPlayProfile.Container (DirectPlayProfiles (fst (getDeviceProfile rt memo))) =
        (if canPlayH264 rt \<or> canPlayHevc rt \<or> canPlayAv1 rt then [''mp4,m4v''] else [])
        @ (if canPlayMkv rt \<and> (canPlayH264 rt \<or> canPlayHevc rt \<or> canPlayAv1 rt)
           then [''mkv''] else [])
        @ (if isTizen rt then [''ts,mpegts''] else [])
        @ (if fst (canPlayHls rt memo) \<and> (canPlayH264 rt \<or> (canPlayHevc rt \<and> isTizen rt))
           then [''hls''] else [])
        @ filter (canPlayAudioFormat rt) [''mp3'', ''aac'', ''flac'', ''wav'', ''ogg'', ''opus'']"
    unfolding DirectPlayProfiles_getDeviceProfile by (rule directPlay_containers)
  show "map TranscodingProfile.Container (TranscodingProfiles (fst (getDeviceProfile rt memo))) =
        (if fst (canPlayHls rt memo) \<and> (canPlayH264 rt \<or> (canPlayHevc rt \<and> isTizen rt))
         then [if getTizenVersion rt \<ge> 5 then ''mp4'' else ''ts''] else [])
        @ filter (canPlayAudioFormat rt) [''aac'', ''mp3'', ''opus'', ''wav'']"
    unfolding TranscodingProfiles_getDeviceProfile by (rule transcoding_containers)
  show "ContainerProfiles (fst (getDeviceProfile rt memo)) =
        (if getTizenVersion rt < 65 / 10 then
           [\<lparr>ContainerProfile.Type = ''Video'',
             ContainerProfile.Conditions =
               [\<lparr>Condition = ''LessThanEqual'', Property = ''NumStreams'', Value = ''32'',
                 IsRequired = Some False\<rparr>]\<rparr>]
         else [])"
    by (simp add: ContainerProfiles_getDeviceProfile containerProfiles_def)
  show "CodecProfiles (fst (getDeviceProfile rt memo)) =
        [\<lparr>CodecProfile.Type = ''Video'', Codec = Some ''h264'',
          CodecProfile.Conditions =
            [\<lparr>Condition = ''EqualsAny'', Property = ''VideoProfile'',
              Value = ''high|main|baseline|constrained baseline'', IsRequired = Some False\<rparr>,
             \<lparr>Condition = ''EqualsAny'', Property = ''VideoRangeType'',
              Value = ''SDR'', IsRequired = Some False\<rparr>,
             \<lparr>Condition = ''LessThanEqual'', Property = ''VideoLevel'',
              Value = toString (getMaxH264Level rt), IsRequired = Some False\<rparr>]\<rparr>,
         \<lparr>CodecProfile.Type = ''Video'', Codec = Some ''hevc'',
          CodecProfile.Conditions =
            [\<lparr>Condition = ''EqualsAny'', Property = ''VideoProfile'',
              Value = getHevcProfiles rt, IsRequired = Some False\<rparr>,
             \<lparr>Condition = ''EqualsAny'', Property = ''VideoRangeType'',
              Value = hevcVideoRangeTypes rt, IsRequired = Some False\<rparr>,
             \<lparr>Condition = ''LessThanEqual'', Property = ''VideoLevel'',
              Value = toString (getMaxHevcLevel rt), IsRequired = Some False\<rparr>]\<rparr>]
        @ (if canPlayAv1 rt then
             [\<lparr>CodecProfile.Type = ''Video'', Codec = Some ''av1'',
               CodecProfile.Conditions =
                 [\<lparr>Condition = ''EqualsAny'', Property = ''VideoProfile'',
                   Value = ''main'', IsRequired = Some False\<rparr>,
                  \<lparr>Condition = ''EqualsAny'', Property = ''VideoRangeType'',
                   Value = av1VideoRangeTypes rt, IsRequired = Some False\<rparr>,
                  \<lparr>Condition = ''LessThanEqual'', Property = ''VideoLevel'',
                   Value = ''15'', IsRequired = Some False\<rparr>]\<rparr>]
           else [])
        @ [\<lparr>CodecProfile.Type = ''VideoAudio'', Codec = None,
            CodecProfile.Conditions =
              [\<lparr>Condition = ''LessThanEqual'', Property = ''AudioChannels'',
                Value = (if isTizen rt then ''6'' else ''2''), IsRequired = Some False\<rparr>]\<rparr>]"
    unfolding CodecProfiles_getDeviceProfile by (rule no_ceiling_codecProfiles [OF n])
  show "map Codec (CodecProfiles (fst (getDeviceProfile rt memo))) =
        [Some ''h264'', Some ''hevc''] @ (if canPlayAv1 rt then [Some ''av1''] else []) @ [None]"
    using no_bitrate_codecProfiles(1) [OF n] by (simp add: CodecProfiles_getDeviceProfile)
  show "\<forall>r \<in> set (CodecProfiles (fst (getDeviceProfile rt memo))).
         \<forall>c \<in> set (CodecProfile.Conditions r). Property c \<noteq> ''VideoBitrate''"
    using no_bitrate_codecProfiles(2) [OF n] by (simp add: CodecProfiles_getDeviceProfile)
  show "SubtitleProfiles (fst (getDeviceProfile rt memo)) =
        [\<lparr>Format = ''vtt'', Method = ''External''\<rparr>, \<lparr>Format = ''srt'', Method = ''External''\<rparr>,
         \<lparr>Format = ''ass'', Method = ''External''\<rparr>, \<lparr>Format = ''ssa'', Method = ''External''\<rparr>,
         \<lparr>Format = ''pgssub'', Method = ''Encode''\<rparr>, \<lparr>Format = ''dvdsub'', Method = ''Encode''\<rparr>,
         \<lparr>Format = ''dvbsub'', Method = ''Encode''\<rparr>, \<lparr>Format = ''sub'', Method = ''Encode''\<rparr>]"
    by (simp add: getDeviceProfile_def split_def Let_def subtitleProfiles_def)
  show "ResponseProfiles (fst (getDeviceProfile rt memo)) =
        [\<lparr>ResponseProfile.Type = ''Video'', ResponseProfile.Container = ''m4v'',
          MimeType = ''video/mp4''\<rparr>]"
    by (simp add: getDeviceProfile_def split_def Let_def responseProfiles_def)
qed

lemma tv_5_5_panel_throws_facts:
  "getTizenVersion tv_5_5_panel_throws = 11 / 2"
  "canPlayH264 tv_5_5_panel_throws" "canPlayHevc tv_5_5_panel_throws"
  "canPlayAv1 tv_5_5_panel_throws" "canPlayMkv tv_5_5_panel_throws"
  "supportsAc3 tv_5_5_panel_throws" "supportsEac3 tv_5_5_panel_throws"
  "\<not> canPlayDts tv_5_5_panel_throws"
  "canPlayAudioFormat tv_5_5_panel_throws f \<longleftrightarrow> f = ''flac'' \<or> f = ''asf'' \<or> f = ''wma'' \<or> f = ''mp3''"
  "getMaxH264Level tv_5_5_panel_throws = 52" "getMaxHevcLevel tv_5_5_panel_throws = 153"
  "getHevcProfiles tv_5_5_panel_throws = ''main|main 10''"
  "fst (canPlayHls tv_5_5_panel_throws None)"
  "webapis tv_5_5_panel_throws = Webapis (Some Throws)"
proof -
  note t = isTizen_tv_5_5_panel_throws
  have "userAgent tv_5_5_panel_throws = ''Tizen 5.5''" by (simp add: tv_5_5_panel_throws_def)
  then show v: "getTizenVersion tv_5_5_panel_throws = 11 / 2"
    by (simp add: getTizenVersion_def t regex_match_Tizen_5_5 parseInt_5 del: regex_match.simps)
  show "canPlayH264 tv_5_5_panel_throws"
    by (simp add: canPlayH264_def tv_5_5_panel_throws_def canPlayTypeNotNo_def)
  show "canPlayHevc tv_5_5_panel_throws" by (simp add: canPlayHevc_def t)
  show "canPlayAv1 tv_5_5_panel_throws" by (simp add: canPlayAv1_def v)
  show "canPlayMkv tv_5_5_panel_throws" by (simp add: canPlayMkv_def t)
  show "supportsAc3 tv_5_5_panel_throws" by (simp add: supportsAc3_def t)
  show "supportsEac3 tv_5_5_panel_throws" by (simp add: supportsEac3_def t)
  show "\<not> canPlayDts tv_5_5_panel_throws" by (simp add: canPlayDts_def v)
  show "canPlayAudioFormat tv_5_5_panel_throws f \<longleftrightarrow> f = ''flac'' \<or> f = ''asf'' \<or> f = ''wma'' \<or> f = ''mp3''"
    by (simp add: canPlayAudioFormat_def t audioTypeString_def)
       (simp add: tv_5_5_panel_throws_def canPlayTypeNotNo_def)
  show "getMaxH264Level tv_5_5_panel_throws = 52" by (simp add: getMaxH264Level_def v)
  show "getMaxHevcLevel tv_5_5_panel_throws = 153"
    by (simp add: getMaxHevcLevel_def t) (simp add: tv_5_5_panel_throws_def canPlayTypeNotNo_def)
  show "getHevcProfiles tv_5_5_panel_throws = ''main|main 10''"
    by (simp add: getHevcProfiles_def t)
  show "fst (canPlayHls tv_5_5_panel_throws None)"
    by (simp add: canPlayHls_def canPlayNativeHls_def t Let_def)
  show "webapis tv_5_5_panel_throws = Webapis (Some Throws)"
    by (simp add: tv_5_5_panel_throws_def)
qed

lemma tv_5_5_panel_throws_directPlay:
  "directPlayProfiles tv_5_5_panel_throws True =
     [\<lparr>DirectPlayProfile.Container = ''mp4,m4v'', DirectPlayProfile.Type = ''Video'',
       DirectPlayProfile.VideoCodec = Some ''h264,hevc,av1'',
       DirectPlayProfile.AudioCodec = Some ''aac,mp3,ac3,eac3,pcm_s16le,pcm_s24le,aac_latm''\<rparr>,
      \<lparr>DirectPlayProfile.Container = ''mkv'', DirectPlayProfile.Type = ''Video'',
       DirectPlayProfile.VideoCodec = Some ''h264,hevc,av1'',
       DirectPlayProfile.AudioCodec = Some ''aac,mp3,ac3,eac3,pcm_s16le,pcm_s24le,aac_latm''\<rparr>,
      \<lparr>DirectPlayProfile.Container = ''ts,mpegts'', DirectPlayProfile.Type = ''Video'',
       DirectPlayProfile.VideoCodec = Some ''h264,hevc'',
       DirectPlayProfile.AudioCodec = Some ''aac,mp3,ac3,eac3,pcm_s16le,pcm_s24le,aac_latm''\<rparr>,
      \<lparr>DirectPlayProfile.Container = ''hls'', DirectPlayProfile.Type = ''Video'',
       DirectPlayProfile.VideoCodec = Some ''h264,hevc'',
       DirectPlayProfile.AudioCodec = Some ''aac,mp3,ac3,eac3''\<rparr>,
      \<lparr>DirectPlayProfile.Container = ''mp3'', DirectPlayProfile.Type = ''Audio'',
       DirectPlayProfile.VideoCodec = None, DirectPlayProfile.AudioCodec = None\<rparr>,
      \<lparr>DirectPlayProfile.Container = ''flac'', DirectPlayProfile.Type = ''Audio'',
       DirectPlayProfile.VideoCodec = None, DirectPlayProfile.AudioCodec = None\<rparr>]"
proof -
  note f = tv_5_5_panel_throws_facts and t = isTizen_tv_5_5_panel_throws
  have va: "videoAudioCodecs tv_5_5_panel_throws =
      [''aac'', ''mp3'', ''ac3'', ''eac3'', ''pcm_s16le'', ''pcm_s24le'', ''aac_latm'']"
    by (simp add: videoAudioCodecs_def f t)
  have ha: "hlsAudioCodecs tv_5_5_panel_throws = [''aac'', ''mp3'', ''ac3'', ''eac3'']"
    by (simp add: hlsAudioCodecs_def f)
  have vs: "mp4VideoCodecs tv_5_5_panel_throws = [''h264'', ''hevc'', ''av1'']"
    "mkvVideoCodecs tv_5_5_panel_throws = [''h264'', ''hevc'', ''av1'']"
    "hlsVideoCodecs tv_5_5_panel_throws = [''h264'', ''hevc'']"
    "tsVideoCodecs tv_5_5_panel_throws = [''h264'', ''hevc'']"
    "canPlayTs tv_5_5_panel_throws"
    by (simp_all add: mp4VideoCodecs_def mkvVideoCodecs_def hlsVideoCodecs_def tsVideoCodecs_def
          canPlayTs_def f t)
  show ?thesis
    by (simp add: directPlayProfiles_def va ha vs f(5) audioDirectPlay_def f(9))
qed

lemma tv_5_5_panel_throws_transcoding:
  "transcodingProfiles tv_5_5_panel_throws True =
     [\<lparr>TranscodingProfile.Container = ''mp4'', TranscodingProfile.Type = ''Video'',
       TranscodingProfile.AudioCodec = ''aac,mp3,ac3,eac3'',
       TranscodingProfile.VideoCodec = Some ''h264,hevc'',
       Context = ''Streaming'', Protocol = ''hls'', MaxAudioChannels = ''6'',
       MinSegments = Some ''1'', BreakOnNonKeyFrames = Some False\<rparr>,
      \<lparr>TranscodingProfile.Container = ''mp3'', TranscodingProfile.Type = ''Audio'',
       TranscodingProfile.AudioCodec = ''mp3'', TranscodingProfile.VideoCodec = None,
       Context = ''Streaming'', Protocol = ''http'', MaxAudioChannels = ''6'',
       MinSegments = None, BreakOnNonKeyFrames = None\<rparr>]"
proof -
  note f = tv_5_5_panel_throws_facts and t = isTizen_tv_5_5_panel_throws
  have ha: "hlsAudioCodecs tv_5_5_panel_throws = [''aac'', ''mp3'', ''ac3'', ''eac3'']"
    by (simp add: hlsAudioCodecs_def f)
  have hv: "hlsVideoCodecs tv_5_5_panel_throws = [''h264'', ''hevc'']"
    by (simp add: hlsVideoCodecs_def f t)
  have c: "toString (getPhysicalAudioChannels tv_5_5_panel_throws) = ''6''"
    by (simp add: getPhysicalAudioChannels_def t toString_6)
  have m: "canPlayNativeHlsInFmp4 tv_5_5_panel_throws"
    by (simp add: canPlayNativeHlsInFmp4_def f)
  show ?thesis
    by (simp add: transcodingProfiles_def ha hv c m audioTranscoding_def f(9))
qed

lemma tv_5_5_panel_throws_codecProfiles:
  "codecProfiles tv_5_5_panel_throws =
     [\<lparr>CodecProfile.Type = ''Video'', Codec = Some ''h264'',
       CodecProfile.Conditions =
         [\<lparr>Condition = ''EqualsAny'', Property = ''VideoProfile'',
           Value = ''high|main|baseline|constrained baseline'', IsRequired = Some False\<rparr>,
          \<lparr>Condition = ''EqualsAny'', Property = ''VideoRangeType'',
           Value = ''SDR'', IsRequired = Some False\<rparr>,
          \<lparr>Condition = ''LessThanEqual'', Property = ''VideoLevel'',
           Value = ''52'', IsRequired = Some False\<rparr>]\<rparr>,
      \<lparr>CodecProfile.Type = ''Video'', Codec = Some ''hevc'',
       CodecProfile.Conditions =
         [\<lparr>Condition = ''EqualsAny'', Property = ''VideoProfile'',
           Value = ''main|main 10'', IsRequired = Some False\<rparr>,
          \<lparr>Condition = ''EqualsAny'', Property = ''VideoRangeType'',
           Value = ''SDR|HDR10|HDR10Plus|HLG|DOVIWithHDR10|DOVIWithHDR10Plus|DOVIWithSDR|DOVIWithHLG|DOVIWithEL|DOVIWithELHDR10Plus|DOVIInvalid'',
           IsRequired = Some False\<rparr>,
          \<lparr>Condition = ''LessThanEqual'', Property = ''VideoLevel'',
           Value = ''153'', IsRequired = Some False\<rparr>]\<rparr>,
      \<lparr>CodecProfile.Type = ''Video'', Codec = Some ''av1'',
       CodecProfile.Conditions =
         [\<lparr>Condition = ''EqualsAny'', Property = ''VideoProfile'',
           Value = ''main'', IsRequired = Some False\<rparr>,
          \<lparr>Condition = ''EqualsAny'', Property = ''VideoRangeType'',
           Value = ''SDR|HDR10|HDR10Plus|HLG|DOVIWithHDR10|DOVIWithHDR10Plus|DOVIWithEL|DOVIWithELHDR10Plus|DOVIInvalid'',
           IsRequired = Some False\<rparr>,
          \<lparr>Condition = ''LessThanEqual'', Property = ''VideoLevel'',
           Value = ''15'', IsRequired = Some False\<rparr>]\<rparr>,
      \<lparr>CodecProfile.Type = ''VideoAudio'', Codec = None,
       CodecProfile.Conditions =
         [\<lparr>Condition = ''LessThanEqual'', Property = ''AudioChannels'',
           Value = ''6'', IsRequired = Some False\<rparr>]\<rparr>]"
proof -
  note f = tv_5_5_panel_throws_facts and t = isTizen_tv_5_5_panel_throws
  have n: "getGlobalMaxVideoBitrate tv_5_5_panel_throws = None"
    by (simp add: getGlobalMaxVideoBitrate_eq f)
  have h: "hevcVideoRangeTypes tv_5_5_panel_throws =
      ''SDR|HDR10|HDR10Plus|HLG|DOVIWithHDR10|DOVIWithHDR10Plus|DOVIWithSDR|DOVIWithHLG|DOVIWithEL|DOVIWithELHDR10Plus|DOVIInvalid''"
    by (simp add: hevcVideoRangeTypes_cases t f)
  have a: "av1VideoRangeTypes tv_5_5_panel_throws =
      ''SDR|HDR10|HDR10Plus|HLG|DOVIWithHDR10|DOVIWithHDR10Plus|DOVIWithEL|DOVIWithELHDR10Plus|DOVIInvalid''"
    by (simp add: av1VideoRangeTypes_cases t f)
  show ?thesis
    unfolding no_ceiling_codecProfiles [OF n]
    by (simp add: f t toString_52 toString_153) (simp add: h a)
qed

theorem panel_query_fails_open_witness:
  "isTizen tv_5_5_panel_throws \<and>
   webapis tv_5_5_panel_throws = Webapis (Some Throws) \<and>
   panel_try tv_5_5_panel_throws = Inl Exception \<and>
   getGlobalMaxVideoBitrate tv_5_5_panel_throws = None \<and>
   getGlobalMaxVideoBitrate tv_5_5_fhd = Some 20000000 \<and>
   fst (getDeviceProfile tv_5_5_panel_throws None) =
     \<lparr>MaxStreamingBitrate = 120000000,
      MaxStaticBitrate = 100000000,
      MusicStreamingTranscodingBitrate = 384000,
      DirectPlayProfiles =
        [\<lparr>DirectPlayProfile.Container = ''mp4,m4v'', DirectPlayProfile.Type = ''Video'',
          DirectPlayProfile.VideoCodec = Some ''h264,hevc,av1'',
          DirectPlayProfile.AudioCodec = Some ''aac,mp3,ac3,eac3,pcm_s16le,pcm_s24le,aac_latm''\<rparr>,
         \<lparr>DirectPlayProfile.Container = ''mkv'', DirectPlayProfile.Type = ''Video'',
          DirectPlayProfile.VideoCodec = Some ''h264,hevc,av1'',
          DirectPlayProfile.AudioCodec = Some ''aac,mp3,ac3,eac3,pcm_s16le,pcm_s24le,aac_latm''\<rparr>,
         \<lparr>DirectPlayProfile.Container = ''ts,mpegts'', DirectPlayProfile.Type = ''Video'',
          DirectPlayProfile.VideoCodec = Some ''h264,hevc'',
          DirectPlayProfile.AudioCodec = Some ''aac,mp3,ac3,eac3,pcm_s16le,pcm_s24le,aac_latm''\<rparr>,
         \<lparr>DirectPlayProfile.Container = ''hls'', DirectPlayProfile.Type = ''Video'',
          DirectPlayProfile.VideoCodec = Some ''h264,hevc'',
          DirectPlayProfile.AudioCodec = Some ''aac,mp3,ac3,eac3''\<rparr>,
         \<lparr>DirectPlayProfile.Container = ''mp3'', DirectPlayProfile.Type = ''Audio'',
          DirectPlayProfile.VideoCodec = None, DirectPlayProfile.AudioCodec = None\<rparr>,
         \<lparr>DirectPlayProfile.Container = ''flac'', DirectPlayProfile.Type = ''Audio'',
          DirectPlayProfile.VideoCodec = None, DirectPlayProfile.AudioCodec = None\<rparr>],
      TranscodingProfiles =
        [\<lparr>TranscodingProfile.Container = ''mp4'', TranscodingProfile.Type = ''Video'',
          TranscodingProfile.AudioCodec = ''aac,mp3,ac3,eac3'',
          TranscodingProfile.VideoCodec = Some ''h264,hevc'',
          Context = ''Streaming'', Protocol = ''hls'', MaxAudioChannels = ''6'',
          MinSegments = Some ''1'', BreakOnNonKeyFrames = Some False\<rparr>,
         \<lparr>TranscodingProfile.Container = ''mp3'', TranscodingProfile.Type = ''Audio'',
          TranscodingProfile.AudioCodec = ''mp3'', TranscodingProfile.VideoCodec = None,
          Context = ''Streaming'', Protocol = ''http'', MaxAudioChannels = ''6'',
          MinSegments = None, BreakOnNonKeyFrames = None\<rparr>],
      ContainerProfiles =
        [\<lparr>ContainerProfile.Type = ''Video'',
          ContainerProfile.Conditions =
            [\<lparr>Condition = ''LessThanEqual'', Property = ''NumStreams'', Value = ''32'',
              IsRequired = Some False\<rparr>]\<rparr>],
      CodecProfiles =
        [\<lparr>CodecProfile.Type = ''Video'', Codec = Some ''h264'',
          CodecProfile.Conditions =
            [\<lparr>Condition = ''EqualsAny'', Property = ''VideoProfile'',
              Value = ''high|main|baseline|constrained baseline'', IsRequired = Some False\<rparr>,
             \<lparr>Condition = ''EqualsAny'', Property = ''VideoRangeType'',
              Value = ''SDR'', IsRequired = Some False\<rparr>,
             \<lparr>Condition = ''LessThanEqual'', Property = ''VideoLevel'',
              Value = ''52'', IsRequired = Some False\<rparr>]\<rparr>,
         \<lparr>CodecProfile.Type = ''Video'', Codec = Some ''hevc'',
          CodecProfile.Conditions =
            [\<lparr>Condition = ''EqualsAny'', Property = ''VideoProfile'',
              Value = ''main|main 10'', IsRequired = Some False\<rparr>,
             \<lparr>Condition = ''EqualsAny'', Property = ''VideoRangeType'',
              Value = ''SDR|HDR10|HDR10Plus|HLG|DOVIWithHDR10|DOVIWithHDR10Plus|DOVIWithSDR|DOVIWithHLG|DOVIWithEL|DOVIWithELHDR10Plus|DOVIInvalid'',
              IsRequired = Some False\<rparr>,
             \<lparr>Condition = ''LessThanEqual'', Property = ''VideoLevel'',
              Value = ''153'', IsRequired = Some False\<rparr>]\<rparr>,
         \<lparr>CodecProfile.Type = ''Video'', Codec = Some ''av1'',
          CodecProfile.Conditions =
            [\<lparr>Condition = ''EqualsAny'', Property = ''VideoProfile'',
              Value = ''main'', IsRequired = Some False\<rparr>,
             \<lparr>Condition = ''EqualsAny'', Property = ''VideoRangeType'',
              Value = ''SDR|HDR10|HDR10Plus|HLG|DOVIWithHDR10|DOVIWithHDR10Plus|DOVIWithEL|DOVIWithELHDR10Plus|DOVIInvalid'',
              IsRequired = Some False\<rparr>,
             \<lparr>Condition = ''LessThanEqual'', Property = ''VideoLevel'',
              Value = ''15'', IsRequired = Some False\<rparr>]\<rparr>,
         \<lparr>CodecProfile.Type = ''VideoAudio'', Codec = None,
          CodecProfile.Conditions =
            [\<lparr>Condition = ''LessThanEqual'', Property = ''AudioChannels'',
              Value = ''6'', IsRequired = Some False\<rparr>]\<rparr>],
      SubtitleProfiles =
        [\<lparr>Format = ''vtt'', Method = ''External''\<rparr>, \<lparr>Format = ''srt'', Method = ''External''\<rparr>,
         \<lparr>Format = ''ass'', Method = ''External''\<rparr>, \<lparr>Format = ''ssa'', Method = ''External''\<rparr>,
         \<lparr>Format = ''pgssub'', Method = ''Encode''\<rparr>, \<lparr>Format = ''dvdsub'', Method = ''Encode''\<rparr>,
         \<lparr>Format = ''dvbsub'', Method = ''Encode''\<rparr>, \<lparr>Format = ''sub'', Method = ''Encode''\<rparr>],
      ResponseProfiles =
        [\<lparr>ResponseProfile.Type = ''Video'', ResponseProfile.Container = ''m4v'',
          MimeType = ''video/mp4''\<rparr>]\<rparr>"
proof -
  note f = tv_5_5_panel_throws_facts
  have w: "webapis tv_5_5_fhd = Webapis (Some (Returns False))"
    by (simp add: tv_5_5_fhd_def)
  have p: "isTizen tv_5_5_panel_throws \<and>
     webapis tv_5_5_panel_throws = Webapis (Some Throws) \<and>
     panel_try tv_5_5_panel_throws = Inl Exception \<and>
     getGlobalMaxVideoBitrate tv_5_5_panel_throws = None \<and>
     getGlobalMaxVideoBitrate tv_5_5_fhd = Some 20000000"
    using panel_query_fails_open [of tv_5_5_panel_throws None]
      panel_query_fails_open [of tv_5_5_fhd None] w f(14)
      isTizen_tv_5_5_panel_throws isTizen_tv_5_5_fhd
    by simp
  have h: "canPlayHls tv_5_5_panel_throws None = (True, Some True)"
    by (simp add: canPlayHls_def canPlayNativeHls_def isTizen_tv_5_5_panel_throws Let_def)
  have h2: "canPlayHls tv_5_5_panel_throws (Some True) = (True, Some True)"
    by (simp add: canPlayHls_def)
  have c: "containerProfiles tv_5_5_panel_throws =
        [\<lparr>ContainerProfile.Type = ''Video'',
          ContainerProfile.Conditions =
            [\<lparr>Condition = ''LessThanEqual'', Property = ''NumStreams'', Value = ''32'',
              IsRequired = Some False\<rparr>]\<rparr>]"
    by (simp add: containerProfiles_def f)
  have d: "fst (getDeviceProfile tv_5_5_panel_throws None) =
     \<lparr>MaxStreamingBitrate = 120000000,
      MaxStaticBitrate = 100000000,
      MusicStreamingTranscodingBitrate = 384000,
      DirectPlayProfiles = directPlayProfiles tv_5_5_panel_throws True,
      TranscodingProfiles = transcodingProfiles tv_5_5_panel_throws True,
      ContainerProfiles = containerProfiles tv_5_5_panel_throws,
      CodecProfiles = codecProfiles tv_5_5_panel_throws,
      SubtitleProfiles = subtitleProfiles,
      ResponseProfiles = responseProfiles\<rparr>"
    by (simp add: getDeviceProfile_def h h2)
  show ?thesis
    unfolding d tv_5_5_panel_throws_directPlay tv_5_5_panel_throws_transcoding c
      tv_5_5_panel_throws_codecProfiles subtitleProfiles_def responseProfiles_def
    using p by simp
qed

section \<open>Enabling an audio codec\<close>

lemma subseq_cond: "(c \<Longrightarrow> c') \<Longrightarrow> subseq (if c then xs else []) (if c' then xs else [])"
  by auto

lemma subseq_same: "subseq xs (xs :: 'a list)"
  by (rule list_emb_refl) simp

lemma kept_append:
  assumes "\<forall>x \<in> set xs. \<exists>x' \<in> set xs'. P x x'" and "\<forall>y \<in> set ys. \<exists>y' \<in> set ys'. P y y'"
  shows "\<forall>z \<in> set (xs @ ys). \<exists>z' \<in> set (xs' @ ys'). P z z'"
  using assms by auto

lemma kept_concat_map:
  assumes "\<And>f. \<forall>x \<in> set (g f). \<exists>x' \<in> set (g' f). P x x'"
  shows "\<forall>x \<in> set (concat (map g fs)). \<exists>x' \<in> set (concat (map g' fs)). P x x'"
proof
  fix x
  assume "x \<in> set (concat (map g fs))"
  then obtain f where f: "f \<in> set fs" "x \<in> set (g f)" by auto
  with assms [of f] obtain x' where "x' \<in> set (g' f)" "P x x'" by blast
  with f show "\<exists>x' \<in> set (concat (map g' fs)). P x x'" by auto
qed

lemma kept_cond:
  "(c \<longrightarrow> c' \<and> P x x') \<Longrightarrow>
   \<forall>z \<in> set (if c then [x] else []). \<exists>z' \<in> set (if c' then [x'] else []). P z z'"
  by (cases c; cases c') auto

lemma videoAudioCodecs_grow:
  assumes "isTizen rt' = isTizen rt"
    and "supportsAc3 rt \<longrightarrow> supportsAc3 rt'"
    and "supportsEac3 rt \<longrightarrow> supportsEac3 rt'"
    and "canPlayDts rt \<longrightarrow> canPlayDts rt'"
    and "\<forall>f. canPlayAudioFormat rt f \<longrightarrow> canPlayAudioFormat rt' f"
  shows "subseq (videoAudioCodecs rt) (videoAudioCodecs rt')"
  unfolding videoAudioCodecs_def
  by (intro list_emb_append_mono subseq_cond subseq_same) (use assms in auto)

lemma hlsAudioCodecs_grow:
  assumes "supportsAc3 rt \<longrightarrow> supportsAc3 rt'"
    and "supportsEac3 rt \<longrightarrow> supportsEac3 rt'"
  shows "subseq (hlsAudioCodecs rt) (hlsAudioCodecs rt')"
  unfolding hlsAudioCodecs_def
  by (intro list_emb_append_mono subseq_cond subseq_same) (use assms in auto)

lemma video_lists_same:
  assumes "isTizen rt' = isTizen rt" "canPlayH264 rt' = canPlayH264 rt"
    "canPlayHevc rt' = canPlayHevc rt" "canPlayAv1 rt' = canPlayAv1 rt"
  shows "mp4VideoCodecs rt' = mp4VideoCodecs rt" "mkvVideoCodecs rt' = mkvVideoCodecs rt"
    "hlsVideoCodecs rt' = hlsVideoCodecs rt" "tsVideoCodecs rt' = tsVideoCodecs rt"
    "canPlayTs rt' = canPlayTs rt"
  using assms
  by (simp_all add: mp4VideoCodecs_def mkvVideoCodecs_def hlsVideoCodecs_def tsVideoCodecs_def
        canPlayTs_def)

lemma codecProfiles_same:
  assumes "isTizen rt' = isTizen rt" "getTizenVersion rt' = getTizenVersion rt"
    "canPlayAv1 rt' = canPlayAv1 rt"
    "getMaxH264Level rt' = getMaxH264Level rt" "getMaxHevcLevel rt' = getMaxHevcLevel rt"
    "getHevcProfiles rt' = getHevcProfiles rt"
    "getGlobalMaxVideoBitrate rt' = getGlobalMaxVideoBitrate rt"
  shows "codecProfiles rt' = codecProfiles rt" "containerProfiles rt' = containerProfiles rt"
  using assms
  by (simp_all add: codecProfiles_def containerProfiles_def h264Conditions_def hevcConditions_def
        av1Conditions_def hevcVideoRangeTypes_def av1VideoRangeTypes_def supportsHlg_def
        supportsHdr10_def getPhysicalAudioChannels_def)

lemma browser_answering_facts:
  "\<not> isTizen (browser_answering vq aq)"
  "getTizenVersion (browser_answering vq aq) = 0"
  "canPlayTypeNotNo (video_canPlayType (browser_answering vq aq)) q \<longleftrightarrow> q \<in> set vq"
  "canPlayTypeNotNo (audio_canPlayType (browser_answering vq aq)) q \<longleftrightarrow> q \<in> set aq"
  "getGlobalMaxVideoBitrate (browser_answering vq aq) = None"
  "canPlayHls (browser_answering vq aq) None =
     (''application/x-mpegURL'' \<in> set vq \<or> ''application/vnd.apple.mpegURL'' \<in> set vq,
      Some (''application/x-mpegURL'' \<in> set vq \<or> ''application/vnd.apple.mpegURL'' \<in> set vq))"
proof -
  show nt: "\<not> isTizen (browser_answering vq aq)"
    by (simp add: isTizen_def browser_answering_def indexOf_def toLowerCase_def toLowerCase_char_def)
  then show "getTizenVersion (browser_answering vq aq) = 0"
    by (simp add: getTizenVersion_def)
  show v: "canPlayTypeNotNo (video_canPlayType (browser_answering vq aq)) q \<longleftrightarrow> q \<in> set vq" for q
    by (simp add: browser_answering_def canPlayTypeNotNo_def)
  show "canPlayTypeNotNo (audio_canPlayType (browser_answering vq aq)) q \<longleftrightarrow> q \<in> set aq"
    by (simp add: browser_answering_def canPlayTypeNotNo_def)
  show "getGlobalMaxVideoBitrate (browser_answering vq aq) = None"
    using nt by (simp add: getGlobalMaxVideoBitrate_eq)
  have "\<not> canPlayHlsWithMSE (browser_answering vq aq)"
    by (simp add: canPlayHlsWithMSE_def browser_answering_def)
  then show "canPlayHls (browser_answering vq aq) None =
     (''application/x-mpegURL'' \<in> set vq \<or> ''application/vnd.apple.mpegURL'' \<in> set vq,
      Some (''application/x-mpegURL'' \<in> set vq \<or> ''application/vnd.apple.mpegURL'' \<in> set vq))"
    using nt by (simp add: canPlayHls_def canPlayNativeHls_def v Let_def)
qed

lemma canPlayAudioFormat_browser_answering:
  "canPlayAudioFormat (browser_answering vq aq) f =
     (case audioTypeString f of Some t \<Rightarrow> t \<in> set aq | None \<Rightarrow> False)"
  by (simp add: canPlayAudioFormat_def browser_answering_facts split: option.splits)

lemma opus_browsers_video_facts:
  "canPlayH264 opus_browser" "canPlayH264 opus_ac3_browser"
  "\<not> canPlayHevc opus_browser" "\<not> canPlayHevc opus_ac3_browser"
  "\<not> canPlayAv1 opus_browser" "\<not> canPlayAv1 opus_ac3_browser"
  "\<not> canPlayMkv opus_browser" "\<not> canPlayMkv opus_ac3_browser"
  "getMaxH264Level opus_browser = 42" "getMaxH264Level opus_ac3_browser = 42"
  "getMaxHevcLevel opus_browser = 120" "getMaxHevcLevel opus_ac3_browser = 120"
  "getHevcProfiles opus_browser = ''main''" "getHevcProfiles opus_ac3_browser = ''main''"
  by (simp_all add: opus_browser_def opus_ac3_browser_def canPlayH264_def canPlayHevc_def
        canPlayAv1_def canPlayMkv_def getMaxH264Level_def getMaxHevcLevel_def getHevcProfiles_def
        browser_answering_facts)

lemma opus_browsers_audio_facts:
  "\<not> supportsAc3 opus_browser" "supportsAc3 opus_ac3_browser"
  "\<not> supportsEac3 opus_browser" "\<not> supportsEac3 opus_ac3_browser"
  "\<not> canPlayDts opus_browser" "\<not> canPlayDts opus_ac3_browser"
  "canPlayAudioFormat opus_ac3_browser f = canPlayAudioFormat opus_browser f"
  "canPlayAudioFormat opus_browser f \<longleftrightarrow> f = ''opus''"
  by (simp_all add: opus_browser_def opus_ac3_browser_def supportsAc3_def supportsEac3_def
        canPlayDts_def browser_answering_facts canPlayAudioFormat_browser_answering
        audioTypeString_def)

lemma opus_browsers_hls:
  "\<not> fst (canPlayHls opus_browser None)" "\<not> fst (canPlayHls opus_ac3_browser None)"
  by (simp_all add: opus_browser_def opus_ac3_browser_def browser_answering_facts)

lemma subseq_cond_full: "subseq (if c then xs else []) xs"
  by (cases c) (simp_all add: subseq_same)

lemma videoAudioCodecs_in_order: "subseq (videoAudioCodecs rt) audioPushOrder"
proof -
  have e: "audioPushOrder =
      [''aac'', ''mp3''] @ [''ac3''] @ [''eac3''] @ [''dca'', ''dts'']
      @ [''pcm_s16le'', ''pcm_s24le'', ''aac_latm''] @ [''opus''] @ [''flac'']"
    by (simp add: audioPushOrder_def)
  show ?thesis
    unfolding videoAudioCodecs_def e
    by (intro list_emb_append_mono subseq_same subseq_cond_full)
qed

lemma hlsAudioCodecs_in_order: "subseq (hlsAudioCodecs rt) audioPushOrder"
proof -
  have "subseq (hlsAudioCodecs rt) ([''aac'', ''mp3''] @ [''ac3''] @ [''eac3''])"
    unfolding hlsAudioCodecs_def
    by (intro list_emb_append_mono subseq_same subseq_cond_full)
  moreover have "subseq ([''aac'', ''mp3''] @ [''ac3''] @ [''eac3'']) audioPushOrder"
    by (simp add: audioPushOrder_def)
  ultimately show ?thesis
    by (rule subseq_order.order_trans)
qed

lemma videoAudioCodecs_fact:
  "c \<in> set (videoAudioCodecs rt) \<Longrightarrow> c = ''aac'' \<or> c = ''mp3'' \<or> audioCodecFact rt c"
  unfolding videoAudioCodecs_def set_append Un_iff
  by (elim disjE) (auto simp: audioCodecFact_def split: if_splits)

lemma videoAudioCodecs_baseline:
  "''aac'' \<in> set (videoAudioCodecs rt)" "''mp3'' \<in> set (videoAudioCodecs rt)"
  by (simp_all add: videoAudioCodecs_def)

lemma audioCodecFact_listed: "audioCodecFact rt c \<Longrightarrow> c \<in> set (videoAudioCodecs rt)"
  unfolding audioCodecFact_def
  by (elim disjE conjE) (simp_all add: videoAudioCodecs_def)

lemma set_hlsAudioCodecs:
  "c \<in> set (hlsAudioCodecs rt) \<longleftrightarrow>
     c = ''aac'' \<or> c = ''mp3'' \<or> (c = ''ac3'' \<and> supportsAc3 rt) \<or> (c = ''eac3'' \<and> supportsEac3 rt)"
  by (auto simp: hlsAudioCodecs_def)

lemma hlsAudioCodecs_fact:
  "c \<in> set (hlsAudioCodecs rt) \<Longrightarrow> c = ''aac'' \<or> c = ''mp3'' \<or> audioCodecFact rt c"
  by (auto simp: set_hlsAudioCodecs audioCodecFact_def)

lemma audioCodecFact_ac3: "audioCodecFact rt ''ac3'' \<longleftrightarrow> supportsAc3 rt"
  by (simp add: audioCodecFact_def)

lemma audioCodecFact_eac3: "audioCodecFact rt ''eac3'' \<longleftrightarrow> supportsEac3 rt"
  by (simp add: audioCodecFact_def)

lemma videoAudio_list_grows:
  assumes "isTizen rt' = isTizen rt"
    and "supportsAc3 rt \<longrightarrow> supportsAc3 rt'"
    and "supportsEac3 rt \<longrightarrow> supportsEac3 rt'"
    and "canPlayDts rt \<longrightarrow> canPlayDts rt'"
    and "\<forall>f. canPlayAudioFormat rt f \<longrightarrow> canPlayAudioFormat rt' f"
  shows "audioList_grows rt rt' (join '','' (videoAudioCodecs rt)) (join '','' (videoAudioCodecs rt'))"
proof -
  have "c \<in> set (videoAudioCodecs rt) \<or> (audioCodecFact rt' c \<and> \<not> audioCodecFact rt c)"
    if "c \<in> set (videoAudioCodecs rt')" for c
    using videoAudioCodecs_fact [OF that] videoAudioCodecs_baseline [of rt]
      audioCodecFact_listed [of rt c]
    by blast
  then show ?thesis
    unfolding audioList_grows_def split_videoAudioCodecs list_all_iff
    using videoAudioCodecs_grow [OF assms] videoAudioCodecs_in_order [of rt']
    by blast
qed

lemma hlsAudio_list_grows:
  assumes "supportsAc3 rt \<longrightarrow> supportsAc3 rt'"
    and "supportsEac3 rt \<longrightarrow> supportsEac3 rt'"
  shows "audioList_grows rt rt' (join '','' (hlsAudioCodecs rt)) (join '','' (hlsAudioCodecs rt'))"
proof -
  have "c \<in> set (hlsAudioCodecs rt) \<or> (audioCodecFact rt' c \<and> \<not> audioCodecFact rt c)"
    if "c \<in> set (hlsAudioCodecs rt')" for c
    using that unfolding set_hlsAudioCodecs
    by (auto simp: audioCodecFact_ac3 audioCodecFact_eac3)
  then show ?thesis
    unfolding audioList_grows_def split_hlsAudioCodecs list_all_iff
    using hlsAudioCodecs_grow [OF assms] hlsAudioCodecs_in_order [of rt']
    by blast
qed

lemma directPlayProfiles_grow:
  assumes same: "isTizen rt' = isTizen rt" "canPlayH264 rt' = canPlayH264 rt"
      "canPlayHevc rt' = canPlayHevc rt" "canPlayAv1 rt' = canPlayAv1 rt"
    and mkv: "canPlayMkv rt' = canPlayMkv rt"
    and grow: "supportsAc3 rt \<longrightarrow> supportsAc3 rt'" "supportsEac3 rt \<longrightarrow> supportsEac3 rt'"
      "canPlayDts rt \<longrightarrow> canPlayDts rt'"
      "\<forall>f. canPlayAudioFormat rt f \<longrightarrow> canPlayAudioFormat rt' f"
  shows "\<forall>r \<in> set (directPlayProfiles rt hls). \<exists>r' \<in> set (directPlayProfiles rt' hls).
           directPlayRule_kept rt rt' r r'"
proof -
  note v = video_lists_same [OF same]
  note va = videoAudio_list_grows [OF same(1) grow]
  note ha = hlsAudio_list_grows [OF grow(1,2)]
  have audio: "\<forall>x \<in> set (audioDirectPlay rt f). \<exists>x' \<in> set (audioDirectPlay rt' f).
      directPlayRule_kept rt rt' x x'" for f
    using grow(4) by (simp add: audioDirectPlay_def directPlayRule_kept_def)
  show ?thesis
    unfolding directPlayProfiles_def v mkv
    by (intro kept_append kept_cond kept_concat_map audio)
       (simp_all add: directPlayRule_kept_def va ha)
qed

lemma transcodingProfiles_grow:
  assumes same: "isTizen rt' = isTizen rt" "canPlayH264 rt' = canPlayH264 rt"
      "canPlayHevc rt' = canPlayHevc rt" "canPlayAv1 rt' = canPlayAv1 rt"
    and ver: "getTizenVersion rt' = getTizenVersion rt"
    and grow: "supportsAc3 rt \<longrightarrow> supportsAc3 rt'" "supportsEac3 rt \<longrightarrow> supportsEac3 rt'"
      "\<forall>f. canPlayAudioFormat rt f \<longrightarrow> canPlayAudioFormat rt' f"
  shows "\<forall>t \<in> set (transcodingProfiles rt hls). \<exists>t' \<in> set (transcodingProfiles rt' hls).
           transcodingRule_kept rt rt' t t'"
proof -
  note v = video_lists_same [OF same]
  have ch: "getPhysicalAudioChannels rt' = getPhysicalAudioChannels rt"
    using same(1) by (simp add: getPhysicalAudioChannels_def)
  have fmp4: "canPlayNativeHlsInFmp4 rt' = canPlayNativeHlsInFmp4 rt"
    using ver by (simp add: canPlayNativeHlsInFmp4_def)
  note ha = hlsAudio_list_grows [OF grow(1,2)]
  have audio: "\<forall>x \<in> set (audioTranscoding rt f). \<exists>x' \<in> set (audioTranscoding rt' f).
      transcodingRule_kept rt rt' x x'" for f
    using grow(3) by (simp add: audioTranscoding_def transcodingRule_kept_def ch)
  show ?thesis
    unfolding transcodingProfiles_def v Let_def
    by (intro kept_append kept_cond kept_concat_map audio)
       (simp_all add: transcodingRule_kept_def ha ch fmp4)
qed

lemma opus_browsers_directPlay:
  "directPlayProfiles opus_browser False =
     [\<lparr>DirectPlayProfile.Container = ''mp4,m4v'', DirectPlayProfile.Type = ''Video'',
       DirectPlayProfile.VideoCodec = Some ''h264'',
       DirectPlayProfile.AudioCodec = Some ''aac,mp3,opus''\<rparr>,
      \<lparr>DirectPlayProfile.Container = ''opus'', DirectPlayProfile.Type = ''Audio'',
       DirectPlayProfile.VideoCodec = None, DirectPlayProfile.AudioCodec = None\<rparr>]"
  "directPlayProfiles opus_ac3_browser False =
     [\<lparr>DirectPlayProfile.Container = ''mp4,m4v'', DirectPlayProfile.Type = ''Video'',
       DirectPlayProfile.VideoCodec = Some ''h264'',
       DirectPlayProfile.AudioCodec = Some ''aac,mp3,ac3,opus''\<rparr>,
      \<lparr>DirectPlayProfile.Container = ''opus'', DirectPlayProfile.Type = ''Audio'',
       DirectPlayProfile.VideoCodec = None, DirectPlayProfile.AudioCodec = None\<rparr>]"
proof -
  have nt: "\<not> isTizen opus_browser" "\<not> isTizen opus_ac3_browser"
    by (simp_all add: opus_browser_def opus_ac3_browser_def browser_answering_facts)
  have ts: "\<not> canPlayTs opus_browser" "\<not> canPlayTs opus_ac3_browser"
    using nt by (simp_all add: canPlayTs_def)
  have mp4: "mp4VideoCodecs opus_browser = [''h264'']" "mp4VideoCodecs opus_ac3_browser = [''h264'']"
    by (simp_all add: mp4VideoCodecs_def opus_browsers_video_facts)
  have va0: "videoAudioCodecs opus_browser = [''aac'', ''mp3'', ''opus'']"
    by (simp add: videoAudioCodecs_def opus_browsers_audio_facts nt)
  have va1: "videoAudioCodecs opus_ac3_browser = [''aac'', ''mp3'', ''ac3'', ''opus'']"
    by (simp add: videoAudioCodecs_def opus_browsers_audio_facts nt)
  show "directPlayProfiles opus_browser False =
     [\<lparr>DirectPlayProfile.Container = ''mp4,m4v'', DirectPlayProfile.Type = ''Video'',
       DirectPlayProfile.VideoCodec = Some ''h264'',
       DirectPlayProfile.AudioCodec = Some ''aac,mp3,opus''\<rparr>,
      \<lparr>DirectPlayProfile.Container = ''opus'', DirectPlayProfile.Type = ''Audio'',
       DirectPlayProfile.VideoCodec = None, DirectPlayProfile.AudioCodec = None\<rparr>]"
    by (simp add: directPlayProfiles_def mp4 va0 ts opus_browsers_video_facts audioDirectPlay_def
          opus_browsers_audio_facts)
  show "directPlayProfiles opus_ac3_browser False =
     [\<lparr>DirectPlayProfile.Container = ''mp4,m4v'', DirectPlayProfile.Type = ''Video'',
       DirectPlayProfile.VideoCodec = Some ''h264'',
       DirectPlayProfile.AudioCodec = Some ''aac,mp3,ac3,opus''\<rparr>,
      \<lparr>DirectPlayProfile.Container = ''opus'', DirectPlayProfile.Type = ''Audio'',
       DirectPlayProfile.VideoCodec = None, DirectPlayProfile.AudioCodec = None\<rparr>]"
    by (simp add: directPlayProfiles_def mp4 va1 ts opus_browsers_video_facts audioDirectPlay_def
          opus_browsers_audio_facts)
qed

text \<open>
  \<open>opus_browser\<close> plays Opus and not AC-3; \<open>opus_ac3_browser\<close> differs only in playing
  AC-3. The audio codec list of the \<open>mp4,m4v\<close> rule goes from \<open>aac,mp3,opus\<close> to
  \<open>aac,mp3,ac3,opus\<close>: \<open>ac3\<close> is put before \<open>opus\<close>, so the old list is not a prefix
  of the new one.
\<close>

theorem enabling_ac3_inserts_counterexample:
  "\<not> supportsAc3 opus_browser \<and> supportsAc3 opus_ac3_browser \<and>
   DirectPlayProfiles (fst (getDeviceProfile opus_browser None)) =
     [\<lparr>DirectPlayProfile.Container = ''mp4,m4v'', DirectPlayProfile.Type = ''Video'',
       DirectPlayProfile.VideoCodec = Some ''h264'',
       DirectPlayProfile.AudioCodec = Some ''aac,mp3,opus''\<rparr>,
      \<lparr>DirectPlayProfile.Container = ''opus'', DirectPlayProfile.Type = ''Audio'',
       DirectPlayProfile.VideoCodec = None, DirectPlayProfile.AudioCodec = None\<rparr>] \<and>
   DirectPlayProfiles (fst (getDeviceProfile opus_ac3_browser None)) =
     [\<lparr>DirectPlayProfile.Container = ''mp4,m4v'', DirectPlayProfile.Type = ''Video'',
       DirectPlayProfile.VideoCodec = Some ''h264'',
       DirectPlayProfile.AudioCodec = Some ''aac,mp3,ac3,opus''\<rparr>,
      \<lparr>DirectPlayProfile.Container = ''opus'', DirectPlayProfile.Type = ''Audio'',
       DirectPlayProfile.VideoCodec = None, DirectPlayProfile.AudioCodec = None\<rparr>] \<and>
   split CHR '','' ''aac,mp3,opus'' = [''aac'', ''mp3'', ''opus''] \<and>
   split CHR '','' ''aac,mp3,ac3,opus'' = [''aac'', ''mp3'', ''ac3'', ''opus''] \<and>
   \<not> prefix [''aac'', ''mp3'', ''opus''] [''aac'', ''mp3'', ''ac3'', ''opus'']"
proof -
  have h: "fst (canPlayHls opus_browser None) = False" "fst (canPlayHls opus_ac3_browser None) = False"
    using opus_browsers_hls by simp_all
  show ?thesis
    by (simp add: opus_browsers_audio_facts DirectPlayProfiles_getDeviceProfile h
          opus_browsers_directPlay)
qed

text \<open>
  C7, as the code has it. Let two runtimes agree on the platform, the version, the
  video codec and container probes, HLS, the level and profile probes and the
  bitrate ceiling, and let every audio probe that holds on the first hold on the
  second. Then every direct-play rule and every transcoding rule of the first
  profile is kept in the second: same container, media type and video codecs, and
  an audio codec list that grows. Growing means that the old list is a subsequence
  of the new one, that the new list is in the fixed push order \<open>audioPushOrder\<close>,
  which has no repetition, so that a new codec stands at its one place in that order
  and not at the end, and that
  every new entry is a codec whose fact went from false to true. The container
  rules, codec rules (hence all conditions), subtitle rules and response rules are
  the same. Turning one audio fact from unsupported to supported is the special
  case where the audio probes differ in that one fact.
\<close>

theorem enabling_audio_codec_keeps_rules:
  assumes "isTizen rt' = isTizen rt"
    and "getTizenVersion rt' = getTizenVersion rt"
    and "canPlayH264 rt' = canPlayH264 rt"
    and "canPlayHevc rt' = canPlayHevc rt"
    and "canPlayAv1 rt' = canPlayAv1 rt"
    and "canPlayMkv rt' = canPlayMkv rt"
    and "fst (canPlayHls rt' memo') = fst (canPlayHls rt memo)"
    and "getMaxH264Level rt' = getMaxH264Level rt"
    and "getMaxHevcLevel rt' = getMaxHevcLevel rt"
    and "getHevcProfiles rt' = getHevcProfiles rt"
    and "getGlobalMaxVideoBitrate rt' = getGlobalMaxVideoBitrate rt"
    and "supportsAc3 rt \<longrightarrow> supportsAc3 rt'"
    and "supportsEac3 rt \<longrightarrow> supportsEac3 rt'"
    and "canPlayDts rt \<longrightarrow> canPlayDts rt'"
    and "\<forall>f. canPlayAudioFormat rt f \<longrightarrow> canPlayAudioFormat rt' f"
  shows "(\<forall>r \<in> set (DirectPlayProfiles (fst (getDeviceProfile rt memo))).
            \<exists>r' \<in> set (DirectPlayProfiles (fst (getDeviceProfile rt' memo'))).
              directPlayRule_kept rt rt' r r') \<and>
         (\<forall>t \<in> set (TranscodingProfiles (fst (getDeviceProfile rt memo))).
            \<exists>t' \<in> set (TranscodingProfiles (fst (getDeviceProfile rt' memo'))).
              transcodingRule_kept rt rt' t t') \<and>
         ContainerProfiles (fst (getDeviceProfile rt' memo')) =
           ContainerProfiles (fst (getDeviceProfile rt memo)) \<and>
         CodecProfiles (fst (getDeviceProfile rt' memo')) =
           CodecProfiles (fst (getDeviceProfile rt memo)) \<and>
         SubtitleProfiles (fst (getDeviceProfile rt' memo')) =
           SubtitleProfiles (fst (getDeviceProfile rt memo)) \<and>
         ResponseProfiles (fst (getDeviceProfile rt' memo')) =
           ResponseProfiles (fst (getDeviceProfile rt memo)) \<and>
         distinct audioPushOrder"
proof (intro conjI)
  show "\<forall>r \<in> set (DirectPlayProfiles (fst (getDeviceProfile rt memo))).
            \<exists>r' \<in> set (DirectPlayProfiles (fst (getDeviceProfile rt' memo'))).
              directPlayRule_kept rt rt' r r'"
    unfolding DirectPlayProfiles_getDeviceProfile assms(7)
    by (rule directPlayProfiles_grow [OF assms(1,3,4,5,6,12,13,14,15)])
  show "\<forall>t \<in> set (TranscodingProfiles (fst (getDeviceProfile rt memo))).
            \<exists>t' \<in> set (TranscodingProfiles (fst (getDeviceProfile rt' memo'))).
              transcodingRule_kept rt rt' t t'"
    unfolding TranscodingProfiles_getDeviceProfile assms(7)
    by (rule transcodingProfiles_grow [OF assms(1,3,4,5,2,12,13,15)])
  show "ContainerProfiles (fst (getDeviceProfile rt' memo')) =
           ContainerProfiles (fst (getDeviceProfile rt memo))"
    unfolding ContainerProfiles_getDeviceProfile
    by (rule codecProfiles_same(2) [OF assms(1,2,5,8,9,10,11)])
  show "CodecProfiles (fst (getDeviceProfile rt' memo')) =
           CodecProfiles (fst (getDeviceProfile rt memo))"
    unfolding CodecProfiles_getDeviceProfile
    by (rule codecProfiles_same(1) [OF assms(1,2,5,8,9,10,11)])
  show "SubtitleProfiles (fst (getDeviceProfile rt' memo')) =
           SubtitleProfiles (fst (getDeviceProfile rt memo))"
    by (simp add: getDeviceProfile_def split_def Let_def)
  show "ResponseProfiles (fst (getDeviceProfile rt' memo')) =
           ResponseProfiles (fst (getDeviceProfile rt memo))"
    by (simp add: getDeviceProfile_def split_def Let_def)
  show "distinct audioPushOrder"
    by (simp add: audioPushOrder_def)
qed

theorem enabling_audio_codec_keeps_rules_witness:
  "\<not> supportsAc3 opus_browser \<and> supportsAc3 opus_ac3_browser \<and>
   audioList_grows opus_browser opus_ac3_browser ''aac,mp3,opus'' ''aac,mp3,ac3,opus'' \<and>
   CodecProfiles (fst (getDeviceProfile opus_ac3_browser None)) =
     CodecProfiles (fst (getDeviceProfile opus_browser None)) \<and>
   ContainerProfiles (fst (getDeviceProfile opus_ac3_browser None)) =
     ContainerProfiles (fst (getDeviceProfile opus_browser None))"
proof -
  have nt: "isTizen opus_ac3_browser = isTizen opus_browser"
    and v: "getTizenVersion opus_ac3_browser = getTizenVersion opus_browser"
    and g: "getGlobalMaxVideoBitrate opus_ac3_browser = getGlobalMaxVideoBitrate opus_browser"
    by (simp_all add: opus_browser_def opus_ac3_browser_def browser_answering_facts)
  have h: "fst (canPlayHls opus_ac3_browser None) = fst (canPlayHls opus_browser None)"
    using opus_browsers_hls by simp
  have h0: "fst (canPlayHls opus_browser None) = False"
    "fst (canPlayHls opus_ac3_browser None) = False"
    using opus_browsers_hls by simp_all
  have t: "(\<forall>r \<in> set (DirectPlayProfiles (fst (getDeviceProfile opus_browser None))).
            \<exists>r' \<in> set (DirectPlayProfiles (fst (getDeviceProfile opus_ac3_browser None))).
              directPlayRule_kept opus_browser opus_ac3_browser r r') \<and>
         (\<forall>t \<in> set (TranscodingProfiles (fst (getDeviceProfile opus_browser None))).
            \<exists>t' \<in> set (TranscodingProfiles (fst (getDeviceProfile opus_ac3_browser None))).
              transcodingRule_kept opus_browser opus_ac3_browser t t') \<and>
         ContainerProfiles (fst (getDeviceProfile opus_ac3_browser None)) =
           ContainerProfiles (fst (getDeviceProfile opus_browser None)) \<and>
         CodecProfiles (fst (getDeviceProfile opus_ac3_browser None)) =
           CodecProfiles (fst (getDeviceProfile opus_browser None)) \<and>
         SubtitleProfiles (fst (getDeviceProfile opus_ac3_browser None)) =
           SubtitleProfiles (fst (getDeviceProfile opus_browser None)) \<and>
         ResponseProfiles (fst (getDeviceProfile opus_ac3_browser None)) =
           ResponseProfiles (fst (getDeviceProfile opus_browser None)) \<and>
         distinct audioPushOrder"
    by (rule enabling_audio_codec_keeps_rules [OF nt v _ _ _ _ h _ _ _ g])
       (simp_all add: opus_browsers_video_facts opus_browsers_audio_facts)
  then have "\<forall>r \<in> set (directPlayProfiles opus_browser False).
            \<exists>r' \<in> set (directPlayProfiles opus_ac3_browser False).
              directPlayRule_kept opus_browser opus_ac3_browser r r'"
    by (simp add: DirectPlayProfiles_getDeviceProfile h0)
  then have "audioList_grows opus_browser opus_ac3_browser ''aac,mp3,opus'' ''aac,mp3,ac3,opus''"
    unfolding opus_browsers_directPlay
    by (simp add: directPlayRule_kept_def)
  with t show ?thesis
    by (simp add: opus_browsers_audio_facts)
qed

section \<open>Rules and the facts behind them\<close>

lemma not_isTizen_no_codec_browser: "\<not> isTizen no_codec_browser"
  by (simp add: isTizen_def no_codec_browser_def indexOf_def toLowerCase_def toLowerCase_char_def)

lemma no_codec_browser_facts:
  "\<not> canPlayH264 no_codec_browser" "\<not> canPlayHevc no_codec_browser" "\<not> canPlayAv1 no_codec_browser"
proof -
  have v: "video_canPlayType no_codec_browser = None" by (simp add: no_codec_browser_def)
  have z: "getTizenVersion no_codec_browser = 0"
    by (simp add: getTizenVersion_def not_isTizen_no_codec_browser)
  show "\<not> canPlayH264 no_codec_browser" by (simp add: canPlayH264_def v canPlayTypeNotNo_def)
  show "\<not> canPlayHevc no_codec_browser"
    by (simp add: canPlayHevc_def v canPlayTypeNotNo_def not_isTizen_no_codec_browser)
  show "\<not> canPlayAv1 no_codec_browser" by (simp add: canPlayAv1_def v canPlayTypeNotNo_def z)
qed

text \<open>
  On a browser that can play neither H.264 nor HEVC nor AV1 the profile still has a
  video codec rule for \<open>h264\<close> and one for \<open>hevc\<close>: the source pushes these two rules
  without looking at \<open>canPlayH264\<close> or \<open>canPlayHevc\<close>.
\<close>

theorem unsupported_codec_rule_counterexample:
  "\<not> canPlayH264 no_codec_browser \<and> \<not> canPlayHevc no_codec_browser \<and>
   map CodecProfile.Type (CodecProfiles (fst (getDeviceProfile no_codec_browser None))) =
     [''Video'', ''Video'', ''VideoAudio''] \<and>
   map Codec (CodecProfiles (fst (getDeviceProfile no_codec_browser None))) =
     [Some ''h264'', Some ''hevc'', None]"
proof -
  have "getGlobalMaxVideoBitrate no_codec_browser = None"
    by (simp add: getGlobalMaxVideoBitrate_eq not_isTizen_no_codec_browser)
  then show ?thesis
    by (simp add: no_codec_browser_facts CodecProfiles_getDeviceProfile codecProfiles_def
          globalVideoConditions_def)
qed

lemma no_video_codec_no_lists:
  assumes "\<not> canPlayH264 rt" "\<not> canPlayHevc rt" "\<not> canPlayAv1 rt"
  shows "mp4VideoCodecs rt = []" "mkvVideoCodecs rt = []" "hlsVideoCodecs rt = []" "\<not> canPlayTs rt"
  using assms
  by (auto simp: mp4VideoCodecs_def mkvVideoCodecs_def hlsVideoCodecs_def canPlayTs_def
        canPlayHevc_def split: if_splits)

lemma av1_rule_iff:
  "(\<exists>r \<in> set (codecProfiles rt). Codec r = Some ''av1'') \<longleftrightarrow> canPlayAv1 rt"
  by (auto simp: codecProfiles_def globalVideoConditions_def split: option.splits)

lemma all_append:
  "\<forall>x \<in> set xs. P x \<Longrightarrow> \<forall>y \<in> set ys. P y \<Longrightarrow> \<forall>z \<in> set (xs @ ys). P z"
  by auto

lemma all_cond: "(c \<longrightarrow> P x) \<Longrightarrow> \<forall>z \<in> set (if c then [x] else []). P z"
  by (cases c) auto

lemma all_concat_map:
  "(\<And>f. \<forall>x \<in> set (g f). P x) \<Longrightarrow> \<forall>x \<in> set (concat (map g fs)). P x"
  by auto

lemma video_lists_backed:
  "list_all (videoCodecFact rt) (mp4VideoCodecs rt)"
  "list_all (videoCodecFact rt) (mkvVideoCodecs rt)"
  "list_all (videoCodecFact rt) (hlsVideoCodecs rt)"
  "list_all (\<lambda>c. videoCodecFact rt c \<or> c = ''h264'') (tsVideoCodecs rt)"
  by (simp_all add: mp4VideoCodecs_def mkvVideoCodecs_def hlsVideoCodecs_def tsVideoCodecs_def
        videoCodecFact_def)

lemma audio_lists_backed:
  "audioListBacked rt (join '','' (videoAudioCodecs rt))"
  "audioListBacked rt (join '','' (hlsAudioCodecs rt))"
  unfolding audioListBacked_def split_videoAudioCodecs split_hlsAudioCodecs list_all_iff
  using videoAudioCodecs_fact hlsAudioCodecs_fact by blast+

lemma directPlayProfiles_backed:
  "\<forall>r \<in> set (directPlayProfiles rt hls). directPlayRule_backed rt hls r"
proof -
  have audio: "\<forall>x \<in> set (audioDirectPlay rt f). directPlayRule_backed rt hls x" for f
    by (simp add: audioDirectPlay_def directPlayRule_backed_def)
  show ?thesis
    unfolding directPlayProfiles_def
    by (intro all_append all_cond all_concat_map audio)
       (simp_all add: directPlayRule_backed_def audio_lists_backed video_lists_backed
          split_mp4VideoCodecs split_mkvVideoCodecs split_hlsVideoCodecs split_tsVideoCodecs)
qed

lemma transcodingProfiles_backed:
  "\<forall>t \<in> set (transcodingProfiles rt hls). transcodingRule_backed rt hls t"
proof -
  have audio: "\<forall>x \<in> set (audioTranscoding rt f). transcodingRule_backed rt hls x" for f
    by (simp add: audioTranscoding_def transcodingRule_backed_def)
  show ?thesis
    unfolding transcodingProfiles_def Let_def
    by (intro all_append all_cond all_concat_map audio)
       (simp_all add: transcodingRule_backed_def audio_lists_backed video_lists_backed
          split_hlsVideoCodecs)
qed

lemma no_video_codec_no_video_rules:
  assumes "\<not> canPlayH264 rt" "\<not> canPlayHevc rt" "\<not> canPlayAv1 rt"
  shows "''Video'' \<notin> set (map DirectPlayProfile.Type (directPlayProfiles rt hls))"
    and "''Video'' \<notin> set (map TranscodingProfile.Type (transcodingProfiles rt hls))"
proof -
  note n = no_video_codec_no_lists [OF assms]
  show "''Video'' \<notin> set (map DirectPlayProfile.Type (directPlayProfiles rt hls))"
    using n by (auto simp: directPlayProfiles_def audioDirectPlay_def)
  show "''Video'' \<notin> set (map TranscodingProfile.Type (transcodingProfiles rt hls))"
    using n by (auto simp: transcodingProfiles_def audioTranscoding_def)
qed

lemma codec_rule_names:
  "\<forall>r \<in> set (codecProfiles rt).
     Codec r = None \<or> Codec r = Some ''h264'' \<or> Codec r = Some ''hevc'' \<or> Codec r = Some ''av1''"
  by (auto simp: codecProfiles_def globalVideoConditions_def split: option.splits)

text \<open>
  C1, as the code has it. Every direct-play rule and every transcoding rule of the
  returned profile is backed by the facts: a video direct-play rule has container
  \<open>mp4,m4v\<close>, or \<open>mkv\<close> only if MKV is playable, or \<open>ts,mpegts\<close> only if TS is
  playable, or \<open>hls\<close> only if HLS is playable; every video codec it lists has a
  true playability probe, \<open>h264\<close> in the \<open>ts,mpegts\<close> rule apart; every audio codec
  it lists is \<open>aac\<close> or \<open>mp3\<close>, which head each list, or has a true probe; an
  audio-only rule is there only for a playable audio format; the HLS transcoding
  rule is there only if HLS is playable, in container \<open>mp4\<close> exactly when
  fragmented MP4 over HLS is supported, and lists only such codecs; an audio
  transcoding rule is there only for a playable format. When none of H.264, HEVC
  and AV1 is playable there is no video direct-play rule and no video transcoding
  rule. A codec rule for \<open>av1\<close> is in the profile exactly when AV1 is playable and
  no codec rule names a codec other than \<open>h264\<close>, \<open>hevc\<close> and \<open>av1\<close>, while the
  first two codec rules are always those for \<open>h264\<close> and \<open>hevc\<close>, whatever their
  probes say.
\<close>

theorem rules_backed_by_facts:
  "(\<forall>r \<in> set (DirectPlayProfiles (fst (getDeviceProfile rt memo))).
      directPlayRule_backed rt (fst (canPlayHls rt memo)) r) \<and>
   (\<forall>t \<in> set (TranscodingProfiles (fst (getDeviceProfile rt memo))).
      transcodingRule_backed rt (fst (canPlayHls rt memo)) t) \<and>
   (\<not> canPlayH264 rt \<and> \<not> canPlayHevc rt \<and> \<not> canPlayAv1 rt \<longrightarrow>
      ''Video'' \<notin> set (map DirectPlayProfile.Type (DirectPlayProfiles (fst (getDeviceProfile rt memo)))) \<and>
      ''Video'' \<notin> set (map TranscodingProfile.Type
                         (TranscodingProfiles (fst (getDeviceProfile rt memo))))) \<and>
   ((\<exists>r \<in> set (CodecProfiles (fst (getDeviceProfile rt memo))). Codec r = Some ''av1'') \<longleftrightarrow>
      canPlayAv1 rt) \<and>
   (\<forall>r \<in> set (CodecProfiles (fst (getDeviceProfile rt memo))).
      Codec r = None \<or> Codec r = Some ''h264'' \<or> Codec r = Some ''hevc'' \<or> Codec r = Some ''av1'') \<and>
   map Codec (take 2 (CodecProfiles (fst (getDeviceProfile rt memo)))) = [Some ''h264'', Some ''hevc'']"
proof (intro conjI impI)
  show "\<forall>r \<in> set (DirectPlayProfiles (fst (getDeviceProfile rt memo))).
      directPlayRule_backed rt (fst (canPlayHls rt memo)) r"
    unfolding DirectPlayProfiles_getDeviceProfile by (rule directPlayProfiles_backed)
  show "\<forall>t \<in> set (TranscodingProfiles (fst (getDeviceProfile rt memo))).
      transcodingRule_backed rt (fst (canPlayHls rt memo)) t"
    unfolding TranscodingProfiles_getDeviceProfile by (rule transcodingProfiles_backed)
  show "(\<exists>r \<in> set (CodecProfiles (fst (getDeviceProfile rt memo))). Codec r = Some ''av1'') \<longleftrightarrow>
      canPlayAv1 rt"
    by (simp add: CodecProfiles_getDeviceProfile av1_rule_iff)
  show "\<forall>r \<in> set (CodecProfiles (fst (getDeviceProfile rt memo))).
      Codec r = None \<or> Codec r = Some ''h264'' \<or> Codec r = Some ''hevc'' \<or> Codec r = Some ''av1''"
    unfolding CodecProfiles_getDeviceProfile by (rule codec_rule_names)
  show "map Codec (take 2 (CodecProfiles (fst (getDeviceProfile rt memo)))) = [Some ''h264'', Some ''hevc'']"
    by (simp add: CodecProfiles_getDeviceProfile codecProfiles_def)
next
  assume a: "\<not> canPlayH264 rt \<and> \<not> canPlayHevc rt \<and> \<not> canPlayAv1 rt"
  then show "''Video'' \<notin> set (map DirectPlayProfile.Type (DirectPlayProfiles (fst (getDeviceProfile rt memo))))"
    unfolding DirectPlayProfiles_getDeviceProfile
    by (intro no_video_codec_no_video_rules(1)) simp_all
  from a show "''Video'' \<notin> set (map TranscodingProfile.Type
                         (TranscodingProfiles (fst (getDeviceProfile rt memo))))"
    unfolding TranscodingProfiles_getDeviceProfile
    by (intro no_video_codec_no_video_rules(2)) simp_all
qed

theorem rules_backed_by_facts_witness:
  "\<not> canPlayH264 no_codec_browser \<and> \<not> canPlayHevc no_codec_browser \<and>
   \<not> canPlayAv1 no_codec_browser \<and>
   ''Video'' \<notin> set (map DirectPlayProfile.Type
                     (DirectPlayProfiles (fst (getDeviceProfile no_codec_browser None)))) \<and>
   ''Video'' \<notin> set (map TranscodingProfile.Type
                     (TranscodingProfiles (fst (getDeviceProfile no_codec_browser None)))) \<and>
   \<not> (\<exists>r \<in> set (CodecProfiles (fst (getDeviceProfile no_codec_browser None))). Codec r = Some ''av1'') \<and>
   directPlayRule_backed tv_5_5_panel_throws True
     \<lparr>DirectPlayProfile.Container = ''ts,mpegts'', DirectPlayProfile.Type = ''Video'',
       DirectPlayProfile.VideoCodec = Some ''h264,hevc'',
       DirectPlayProfile.AudioCodec = Some ''aac,mp3,ac3,eac3,pcm_s16le,pcm_s24le,aac_latm''\<rparr> \<and>
   transcodingRule_backed tv_5_5_panel_throws True
     \<lparr>TranscodingProfile.Container = ''mp3'', TranscodingProfile.Type = ''Audio'',
       TranscodingProfile.AudioCodec = ''mp3'', TranscodingProfile.VideoCodec = None,
       Context = ''Streaming'', Protocol = ''http'', MaxAudioChannels = ''6'',
       MinSegments = None, BreakOnNonKeyFrames = None\<rparr>"
proof -
  have h: "fst (canPlayHls tv_5_5_panel_throws None) = True"
    using tv_5_5_panel_throws_facts(13) by simp
  note t = rules_backed_by_facts [of tv_5_5_panel_throws None]
  from t have "\<forall>r \<in> set (directPlayProfiles tv_5_5_panel_throws True).
      directPlayRule_backed tv_5_5_panel_throws True r"
    by (simp add: DirectPlayProfiles_getDeviceProfile h)
  then have d: "directPlayRule_backed tv_5_5_panel_throws True
     \<lparr>DirectPlayProfile.Container = ''ts,mpegts'', DirectPlayProfile.Type = ''Video'',
       DirectPlayProfile.VideoCodec = Some ''h264,hevc'',
       DirectPlayProfile.AudioCodec = Some ''aac,mp3,ac3,eac3,pcm_s16le,pcm_s24le,aac_latm''\<rparr>"
    unfolding tv_5_5_panel_throws_directPlay by simp
  from t have "\<forall>r \<in> set (transcodingProfiles tv_5_5_panel_throws True).
      transcodingRule_backed tv_5_5_panel_throws True r"
    by (simp add: TranscodingProfiles_getDeviceProfile h)
  then have c: "transcodingRule_backed tv_5_5_panel_throws True
     \<lparr>TranscodingProfile.Container = ''mp3'', TranscodingProfile.Type = ''Audio'',
       TranscodingProfile.AudioCodec = ''mp3'', TranscodingProfile.VideoCodec = None,
       Context = ''Streaming'', Protocol = ''http'', MaxAudioChannels = ''6'',
       MinSegments = None, BreakOnNonKeyFrames = None\<rparr>"
    unfolding tv_5_5_panel_throws_transcoding by simp
  show ?thesis
    using rules_backed_by_facts [of no_codec_browser None] no_codec_browser_facts d c
    by simp
qed

section \<open>A browser that plays H.264 only\<close>

text \<open>
  The scenario: the runtime is not the TV platform, the H.264 baseline query is
  answered positively, no query other than the two H.264 queries is answered
  positively by the video element, the audio element answers no query positively,
  and HLS is not playable.
\<close>

lemma canPlayH264_query: "canPlayH264 rt = canPlayTypeNotNo (video_canPlayType rt) h264_baseline_query"
  by (simp add: canPlayH264_def h264_baseline_query_def)

lemma h264_only_video_facts:
  assumes nt: "\<not> isTizen rt"
    and only: "\<forall>q. q \<noteq> h264_baseline_query \<and> q \<noteq> h264_level51_query \<longrightarrow>
                 \<not> canPlayTypeNotNo (video_canPlayType rt) q"
  shows "getTizenVersion rt = 0" "\<not> canPlayHevc rt" "\<not> canPlayAv1 rt" "\<not> canPlayMkv rt"
    "\<not> supportsAc3 rt" "\<not> supportsEac3 rt" "\<not> canPlayDts rt" "\<not> canPlayTs rt"
    "getMaxH264Level rt =
       (if canPlayTypeNotNo (video_canPlayType rt) h264_level51_query then 51 else 42)"
    "getMaxHevcLevel rt = 120" "getHevcProfiles rt = ''main''"
    "getPhysicalAudioChannels rt = 2" "getGlobalMaxVideoBitrate rt = None"
proof -
  note q = h264_baseline_query_def h264_level51_query_def
  show v: "getTizenVersion rt = 0" using nt by (simp add: getTizenVersion_def)
  show "\<not> canPlayHevc rt" using nt only by (simp add: canPlayHevc_def q)
  show "\<not> canPlayAv1 rt" using v only by (simp add: canPlayAv1_def q)
  show "\<not> canPlayMkv rt" using nt only by (simp add: canPlayMkv_def q)
  show "\<not> supportsAc3 rt" using nt only by (simp add: supportsAc3_def q)
  show "\<not> supportsEac3 rt" using nt only by (simp add: supportsEac3_def q)
  show "\<not> canPlayDts rt" using v only by (simp add: canPlayDts_def q)
  show "\<not> canPlayTs rt" using nt by (simp add: canPlayTs_def)
  show "getMaxH264Level rt =
       (if canPlayTypeNotNo (video_canPlayType rt) h264_level51_query then 51 else 42)"
    using nt v by (simp add: getMaxH264Level_def h264_level51_query_def)
  show "getMaxHevcLevel rt = 120" using nt only by (simp add: getMaxHevcLevel_def q)
  show "getHevcProfiles rt = ''main''" using nt only by (simp add: getHevcProfiles_def q)
  show "getPhysicalAudioChannels rt = 2" using nt by (simp add: getPhysicalAudioChannels_def)
  show "getGlobalMaxVideoBitrate rt = None" using nt by (simp add: getGlobalMaxVideoBitrate_eq)
qed

lemma no_audio_formats:
  assumes nt: "\<not> isTizen rt"
    and audio: "\<forall>q. \<not> canPlayTypeNotNo (audio_canPlayType rt) q"
  shows "\<not> canPlayAudioFormat rt format"
  using assms by (simp add: canPlayAudioFormat_def split: option.splits)

lemma h264_only_directPlay:
  assumes nt: "\<not> isTizen rt"
    and h264: "canPlayH264 rt"
    and only: "\<forall>q. q \<noteq> h264_baseline_query \<and> q \<noteq> h264_level51_query \<longrightarrow>
                 \<not> canPlayTypeNotNo (video_canPlayType rt) q"
    and audio: "\<forall>q. \<not> canPlayTypeNotNo (audio_canPlayType rt) q"
  shows "directPlayProfiles rt False =
           [\<lparr>DirectPlayProfile.Container = ''mp4,m4v'', DirectPlayProfile.Type = ''Video'',
             DirectPlayProfile.VideoCodec = Some ''h264'',
             DirectPlayProfile.AudioCodec = Some ''aac,mp3''\<rparr>]"
    and "transcodingProfiles rt False = []"
proof -
  note f = h264_only_video_facts [OF nt only]
  note a = no_audio_formats [OF nt audio]
  have mp4: "mp4VideoCodecs rt = [''h264'']" using h264 f by (simp add: mp4VideoCodecs_def)
  have va: "videoAudioCodecs rt = [''aac'', ''mp3'']" using nt f a by (simp add: videoAudioCodecs_def)
  show "directPlayProfiles rt False =
           [\<lparr>DirectPlayProfile.Container = ''mp4,m4v'', DirectPlayProfile.Type = ''Video'',
             DirectPlayProfile.VideoCodec = Some ''h264'',
             DirectPlayProfile.AudioCodec = Some ''aac,mp3''\<rparr>]"
    using f(4,8) by (simp add: directPlayProfiles_def mp4 va audioDirectPlay_def a)
  show "transcodingProfiles rt False = []"
    by (simp add: transcodingProfiles_def audioTranscoding_def a)
qed

lemma h264_only_codecProfiles:
  assumes nt: "\<not> isTizen rt"
    and only: "\<forall>q. q \<noteq> h264_baseline_query \<and> q \<noteq> h264_level51_query \<longrightarrow>
                 \<not> canPlayTypeNotNo (video_canPlayType rt) q"
  shows "codecProfiles rt =
           [\<lparr>CodecProfile.Type = ''Video'', Codec = Some ''h264'',
             CodecProfile.Conditions =
               [\<lparr>Condition = ''EqualsAny'', Property = ''VideoProfile'',
                 Value = ''high|main|baseline|constrained baseline'', IsRequired = Some False\<rparr>,
                \<lparr>Condition = ''EqualsAny'', Property = ''VideoRangeType'',
                 Value = ''SDR'', IsRequired = Some False\<rparr>,
                \<lparr>Condition = ''LessThanEqual'', Property = ''VideoLevel'',
                 Value = (if canPlayTypeNotNo (video_canPlayType rt) h264_level51_query
                          then ''51'' else ''42''),
                 IsRequired = Some False\<rparr>]\<rparr>,
            \<lparr>CodecProfile.Type = ''Video'', Codec = Some ''hevc'',
             CodecProfile.Conditions =
               [\<lparr>Condition = ''EqualsAny'', Property = ''VideoProfile'',
                 Value = ''main'', IsRequired = Some False\<rparr>,
                \<lparr>Condition = ''EqualsAny'', Property = ''VideoRangeType'',
                 Value = ''SDR'', IsRequired = Some False\<rparr>,
                \<lparr>Condition = ''LessThanEqual'', Property = ''VideoLevel'',
                 Value = ''120'', IsRequired = Some False\<rparr>]\<rparr>,
            \<lparr>CodecProfile.Type = ''VideoAudio'', Codec = None,
             CodecProfile.Conditions =
               [\<lparr>Condition = ''LessThanEqual'', Property = ''AudioChannels'',
                 Value = ''2'', IsRequired = Some False\<rparr>]\<rparr>]"
proof -
  note f = h264_only_video_facts [OF nt only]
  have n: "getGlobalMaxVideoBitrate rt = None" by (rule f(13))
  have r: "hevcVideoRangeTypes rt = ''SDR''"
    using nt by (simp add: hevcVideoRangeTypes_cases)
  show ?thesis
    unfolding no_ceiling_codecProfiles [OF n]
    using nt by (simp add: f r toString_42 toString_51 toString_120)
qed

lemma h264_only_browser_scenario:
  "\<not> isTizen h264_only_browser"
  "canPlayH264 h264_only_browser"
  "\<forall>q. q \<noteq> h264_baseline_query \<and> q \<noteq> h264_level51_query \<longrightarrow>
       \<not> canPlayTypeNotNo (video_canPlayType h264_only_browser) q"
  "\<forall>q. \<not> canPlayTypeNotNo (audio_canPlayType h264_only_browser) q"
  "\<not> fst (canPlayHls h264_only_browser None)"
  "\<not> canPlayTypeNotNo (video_canPlayType h264_only_browser) h264_level51_query"
proof -
  show nt: "\<not> isTizen h264_only_browser" by (rule not_isTizen_h264_only_browser)
  show "canPlayH264 h264_only_browser"
    by (simp add: canPlayH264_def h264_only_browser_def canPlayTypeNotNo_def)
  show only: "\<forall>q. q \<noteq> h264_baseline_query \<and> q \<noteq> h264_level51_query \<longrightarrow>
       \<not> canPlayTypeNotNo (video_canPlayType h264_only_browser) q"
    by (simp add: h264_baseline_query_def h264_only_browser_def canPlayTypeNotNo_def)
  show "\<forall>q. \<not> canPlayTypeNotNo (audio_canPlayType h264_only_browser) q"
    by (simp add: h264_only_browser_def canPlayTypeNotNo_def)
  have "\<not> canPlayNativeHls h264_only_browser"
    using nt only
    by (simp add: canPlayNativeHls_def h264_baseline_query_def h264_level51_query_def)
  moreover have "\<not> canPlayHlsWithMSE h264_only_browser"
    by (simp add: canPlayHlsWithMSE_def h264_only_browser_def)
  ultimately show "\<not> fst (canPlayHls h264_only_browser None)"
    by (simp add: canPlayHls_def)
  show "\<not> canPlayTypeNotNo (video_canPlayType h264_only_browser) h264_level51_query"
    by (simp add: h264_level51_query_def h264_only_browser_def canPlayTypeNotNo_def)
qed

lemma h264_high_browser_scenario:
  "\<not> isTizen h264_high_browser"
  "canPlayH264 h264_high_browser"
  "\<forall>q. q \<noteq> h264_baseline_query \<and> q \<noteq> h264_level51_query \<longrightarrow>
       \<not> canPlayTypeNotNo (video_canPlayType h264_high_browser) q"
  "\<forall>q. \<not> canPlayTypeNotNo (audio_canPlayType h264_high_browser) q"
  "\<not> fst (canPlayHls h264_high_browser None)"
  "canPlayTypeNotNo (video_canPlayType h264_high_browser) h264_level51_query"
  by (simp_all add: h264_high_browser_def browser_answering_facts canPlayH264_def
        h264_baseline_query_def h264_level51_query_def)

text \<open>
  On \<open>h264_only_browser\<close> the profile has three codec rules, not one: after the
  \<open>h264\<close> rule come a rule for \<open>hevc\<close>, although HEVC is not playable, and the
  audio-channel rule.
\<close>

theorem h264_only_scenario_counterexample:
  "\<not> isTizen h264_only_browser \<and> canPlayH264 h264_only_browser \<and>
   \<not> canPlayHevc h264_only_browser \<and> \<not> canPlayAv1 h264_only_browser \<and>
   map CodecProfile.Type (CodecProfiles (fst (getDeviceProfile h264_only_browser None))) =
     [''Video'', ''Video'', ''VideoAudio''] \<and>
   map Codec (CodecProfiles (fst (getDeviceProfile h264_only_browser None))) =
     [Some ''h264'', Some ''hevc'', None]"
  using h264_only_browser_scenario(1,2)
    h264_only_video_facts(2,3) [OF h264_only_browser_scenario(1,3)]
    h264_only_codecProfiles [OF h264_only_browser_scenario(1,3)]
  by (simp add: CodecProfiles_getDeviceProfile)

text \<open>
  C4, as the code has it. In the scenario the version is 0 and HDR10 is not
  supported; the profile has exactly one direct-play rule (\<open>mp4,m4v\<close>, video
  \<open>h264\<close>, audio \<open>aac,mp3\<close>), hence no \<open>ts,mpegts\<close> rule, and no transcoding rule. Its
  codec rules are exactly three: the \<open>h264\<close> rule with range type \<open>SDR\<close> only and
  level ceiling \<open>42\<close> when the H.264 level-5.1 query is answered negatively, \<open>51\<close>
  when it is answered positively; the \<open>hevc\<close> rule with profile \<open>main\<close>, range type
  \<open>SDR\<close> and level ceiling \<open>120\<close>; and the audio-channel rule with ceiling \<open>2\<close>.
  There is no \<open>av1\<close> rule and no condition on \<open>VideoBitrate\<close>.
\<close>

theorem h264_only_scenario:
  assumes "\<not> isTizen rt"
    and "canPlayH264 rt"
    and "\<forall>q. q \<noteq> h264_baseline_query \<and> q \<noteq> h264_level51_query \<longrightarrow>
           \<not> canPlayTypeNotNo (video_canPlayType rt) q"
    and "\<forall>q. \<not> canPlayTypeNotNo (audio_canPlayType rt) q"
    and "\<not> fst (canPlayHls rt memo)"
  shows "getTizenVersion rt = 0 \<and> \<not> supportsHdr10 rt \<and>
         DirectPlayProfiles (fst (getDeviceProfile rt memo)) =
           [\<lparr>DirectPlayProfile.Container = ''mp4,m4v'', DirectPlayProfile.Type = ''Video'',
             DirectPlayProfile.VideoCodec = Some ''h264'',
             DirectPlayProfile.AudioCodec = Some ''aac,mp3''\<rparr>] \<and>
         CodecProfiles (fst (getDeviceProfile rt memo)) =
           [\<lparr>CodecProfile.Type = ''Video'', Codec = Some ''h264'',
             CodecProfile.Conditions =
               [\<lparr>Condition = ''EqualsAny'', Property = ''VideoProfile'',
                 Value = ''high|main|baseline|constrained baseline'', IsRequired = Some False\<rparr>,
                \<lparr>Condition = ''EqualsAny'', Property = ''VideoRangeType'',
                 Value = ''SDR'', IsRequired = Some False\<rparr>,
                \<lparr>Condition = ''LessThanEqual'', Property = ''VideoLevel'',
                 Value = (if canPlayTypeNotNo (video_canPlayType rt) h264_level51_query
                          then ''51'' else ''42''),
                 IsRequired = Some False\<rparr>]\<rparr>,
            \<lparr>CodecProfile.Type = ''Video'', Codec = Some ''hevc'',
             CodecProfile.Conditions =
               [\<lparr>Condition = ''EqualsAny'', Property = ''VideoProfile'',
                 Value = ''main'', IsRequired = Some False\<rparr>,
                \<lparr>Condition = ''EqualsAny'', Property = ''VideoRangeType'',
                 Value = ''SDR'', IsRequired = Some False\<rparr>,
                \<lparr>Condition = ''LessThanEqual'', Property = ''VideoLevel'',
                 Value = ''120'', IsRequired = Some False\<rparr>]\<rparr>,
            \<lparr>CodecProfile.Type = ''VideoAudio'', Codec = None,
             CodecProfile.Conditions =
               [\<lparr>Condition = ''LessThanEqual'', Property = ''AudioChannels'',
                 Value = ''2'', IsRequired = Some False\<rparr>]\<rparr>] \<and>
         TranscodingProfiles (fst (getDeviceProfile rt memo)) = []"
proof -
  from assms(5) have hls: "fst (canPlayHls rt memo) = False" by simp
  show ?thesis
    using assms(1)
      h264_only_video_facts(1) [OF assms(1,3)]
      h264_only_directPlay [OF assms(1-4)]
      h264_only_codecProfiles [OF assms(1,3)]
    by (simp add: DirectPlayProfiles_getDeviceProfile TranscodingProfiles_getDeviceProfile
          CodecProfiles_getDeviceProfile hls supportsHdr10_def)
qed

theorem h264_only_scenario_witness:
  "\<not> isTizen h264_only_browser \<and> canPlayH264 h264_only_browser \<and>
   \<not> fst (canPlayHls h264_only_browser None) \<and>
   DirectPlayProfiles (fst (getDeviceProfile h264_only_browser None)) =
     [\<lparr>DirectPlayProfile.Container = ''mp4,m4v'', DirectPlayProfile.Type = ''Video'',
       DirectPlayProfile.VideoCodec = Some ''h264'',
       DirectPlayProfile.AudioCodec = Some ''aac,mp3''\<rparr>] \<and>
   TranscodingProfiles (fst (getDeviceProfile h264_only_browser None)) = [] \<and>
   conditionValues (CodecProfiles (fst (getDeviceProfile h264_only_browser None)) ! 0)
     ''VideoLevel'' = [''42''] \<and>
   \<not> isTizen h264_high_browser \<and> canPlayH264 h264_high_browser \<and>
   \<not> fst (canPlayHls h264_high_browser None) \<and>
   conditionValues (CodecProfiles (fst (getDeviceProfile h264_high_browser None)) ! 0)
     ''VideoLevel'' = [''51'']"
  using h264_only_scenario [OF h264_only_browser_scenario(1-5)]
    h264_only_scenario [OF h264_high_browser_scenario(1-5)]
    h264_only_browser_scenario(1,2,5,6) h264_high_browser_scenario(1,2,5,6)
  by (simp add: conditionValues_def)

section \<open>Two calls on the same runtime\<close>

lemma mse_browser_facts:
  "\<not> isTizen mse_browser" "canPlayH264 mse_browser" "\<not> canPlayHevc mse_browser"
  "\<not> canPlayAv1 mse_browser" "\<not> canPlayMkv mse_browser"
  "\<not> canPlayNativeHls mse_browser" "canPlayHlsWithMSE mse_browser"
  "\<not> canPlayAudioFormat mse_browser f"
proof -
  have v: "video_canPlayType mse_browser =
      video_canPlayType (browser_answering [h264_baseline_query] [])"
    and a: "audio_canPlayType mse_browser =
      audio_canPlayType (browser_answering [h264_baseline_query] [])"
    by (simp_all add: mse_browser_def h264_baseline_query_def browser_answering_def)
  show nt: "\<not> isTizen mse_browser"
    by (simp add: isTizen_def mse_browser_def browser_answering_def indexOf_def toLowerCase_def
          toLowerCase_char_def)
  then have z: "getTizenVersion mse_browser = 0" by (simp add: getTizenVersion_def)
  show "canPlayH264 mse_browser"
    by (simp add: canPlayH264_query v browser_answering_facts)
  show "\<not> canPlayHevc mse_browser"
    using nt by (simp add: canPlayHevc_def v browser_answering_facts h264_baseline_query_def)
  show "\<not> canPlayAv1 mse_browser"
    using z by (simp add: canPlayAv1_def v browser_answering_facts h264_baseline_query_def)
  show "\<not> canPlayMkv mse_browser"
    using nt by (simp add: canPlayMkv_def v browser_answering_facts h264_baseline_query_def)
  show "\<not> canPlayNativeHls mse_browser"
    using nt by (simp add: canPlayNativeHls_def v browser_answering_facts h264_baseline_query_def)
  show "canPlayHlsWithMSE mse_browser"
    by (simp add: canPlayHlsWithMSE_def mse_browser_def browser_answering_def)
  show "\<not> canPlayAudioFormat mse_browser f"
    using nt by (simp add: canPlayAudioFormat_def a browser_answering_facts split: option.splits)
qed

lemma mse_browser_directPlay:
  "map DirectPlayProfile.Container (directPlayProfiles mse_browser hls) =
     (if hls then [''mp4,m4v'', ''hls''] else [''mp4,m4v''])"
proof -
  have "\<not> canPlayTs mse_browser" by (simp add: canPlayTs_def mse_browser_facts)
  moreover have "mp4VideoCodecs mse_browser = [''h264'']"
    by (simp add: mp4VideoCodecs_def mse_browser_facts)
  moreover have "hlsVideoCodecs mse_browser = [''h264'']"
    by (simp add: hlsVideoCodecs_def mse_browser_facts)
  ultimately show ?thesis
    by (simp add: directPlayProfiles_def mse_browser_facts audioDirectPlay_def)
qed

text \<open>
  \<open>mse_browser\<close> can play HLS through \<^verbatim>\<open>MediaSource\<close>. Started with the memo empty,
  \<open>getDeviceProfile\<close> returns the \<open>mp4,m4v\<close> and the \<open>hls\<close> direct-play rule; started
  with the memo \<open>false\<close>, as an earlier call without \<^verbatim>\<open>MediaSource\<close> leaves it, it
  returns the \<open>mp4,m4v\<close> rule only. The runtime is the same in both calls.
\<close>

theorem stale_memo_counterexample:
  "map DirectPlayProfile.Container (DirectPlayProfiles (fst (getDeviceProfile mse_browser None))) =
     [''mp4,m4v'', ''hls''] \<and>
   map DirectPlayProfile.Container
     (DirectPlayProfiles (fst (getDeviceProfile mse_browser (Some False)))) =
     [''mp4,m4v'']"
  by (simp add: DirectPlayProfiles_getDeviceProfile mse_browser_directPlay canPlayHls_def
        mse_browser_facts)

lemma snd_canPlayHls: "snd (canPlayHls rt memo) = Some (fst (canPlayHls rt memo))"
  by (cases memo) (simp_all add: canPlayHls_def Let_def)

text \<open>
  C6, as the code has it. The profile depends on the memo \<^verbatim>\<open>_canPlayHls\<close> only
  through the answer \<open>canPlayHls\<close> gives: two calls on the same runtime whose memos
  give the same answer return the same profile. Every call leaves the memo filled
  with that answer, so a second call on the same runtime, started from the memo the
  first call left, returns the same profile and leaves the same memo; and a memo
  filled from this runtime gives the profile the empty memo gives. The model has no
  input besides the runtime and the memo.
\<close>

theorem getDeviceProfile_memo_dependence:
  "(fst (canPlayHls rt m1) = fst (canPlayHls rt m2) \<longrightarrow>
      fst (getDeviceProfile rt m1) = fst (getDeviceProfile rt m2)) \<and>
   snd (getDeviceProfile rt memo) = Some (fst (canPlayHls rt memo)) \<and>
   fst (getDeviceProfile rt (snd (getDeviceProfile rt memo))) = fst (getDeviceProfile rt memo) \<and>
   snd (getDeviceProfile rt (snd (getDeviceProfile rt memo))) = snd (getDeviceProfile rt memo) \<and>
   fst (getDeviceProfile rt (Some (canPlayNativeHls rt \<or> canPlayHlsWithMSE rt))) =
     fst (getDeviceProfile rt None)"
proof (intro conjI impI)
  assume "fst (canPlayHls rt m1) = fst (canPlayHls rt m2)"
  then show "fst (getDeviceProfile rt m1) = fst (getDeviceProfile rt m2)"
    by (simp add: getDeviceProfile_def split_def Let_def canPlayHls_again)
next
  show "snd (getDeviceProfile rt memo) = Some (fst (canPlayHls rt memo))"
    by (simp add: memo_getDeviceProfile snd_canPlayHls)
next
  have a: "getDeviceProfile rt (snd (canPlayHls rt m)) = getDeviceProfile rt m" for m
    by (simp add: getDeviceProfile_def canPlayHls_again)
  show "fst (getDeviceProfile rt (snd (getDeviceProfile rt memo))) = fst (getDeviceProfile rt memo)"
    using a [of memo] by (simp add: memo_getDeviceProfile)
  show "snd (getDeviceProfile rt (snd (getDeviceProfile rt memo))) = snd (getDeviceProfile rt memo)"
    using a [of memo] by (simp add: memo_getDeviceProfile)
  have b: "snd (canPlayHls rt None) = Some (canPlayNativeHls rt \<or> canPlayHlsWithMSE rt)"
    by (simp add: canPlayHls_def Let_def)
  show "fst (getDeviceProfile rt (Some (canPlayNativeHls rt \<or> canPlayHlsWithMSE rt))) =
     fst (getDeviceProfile rt None)"
    using a [of None] by (simp add: b)
qed

theorem getDeviceProfile_memo_dependence_witness:
  "fst (canPlayHls mse_browser None) = fst (canPlayHls mse_browser (Some True)) \<and>
   fst (getDeviceProfile mse_browser None) = fst (getDeviceProfile mse_browser (Some True)) \<and>
   snd (getDeviceProfile mse_browser None) = Some True"
proof -
  have h: "fst (canPlayHls mse_browser None) = fst (canPlayHls mse_browser (Some True))"
    "fst (canPlayHls mse_browser None) = True"
    by (simp_all add: canPlayHls_def mse_browser_facts)
  show ?thesis
    using getDeviceProfile_memo_dependence [of mse_browser None "Some True" None] h
    by simp
qed

end
